theory Spec2Isabelle
  imports Main
begin

section \<open>Data model of the collection service (reportsService.ts)\<close>

text \<open>
  The payment-reminder scheduler is the class \<open>CollectionService\<close>. Its types are
  embedded as they are declared. A JavaScript \<open>Date\<close> is an instant, modelled as an
  integer number of milliseconds since the epoch. The string \<open>invoice.dueDate\<close> is
  represented by the value of \<open>new Date(invoice.dueDate)\<close>: \<open>Some ms\<close> for a date
  that parses, \<open>None\<close> for an Invalid Date (whose time value is NaN). Day offsets and
  \<open>maxReminders\<close> have the source type \<open>number\<close> and are modelled as integers; the
  amount is passed through uninterpreted.
\<close>

datatype ReminderType =
  due_soon | overdue_1 | overdue_7 | overdue_14 | overdue_30 | final_warning

datatype ReminderStatus = Pending | Sent | Failed | Cancelled

record ReminderConfig =
  daysBeforeDue :: "int list"
  daysAfterDue :: "int list"
  enableEmail :: bool
  enablePush :: bool
  maxReminders :: int

record Reminder =
  rem_id :: string
  rem_invoiceId :: string
  rem_clientId :: string
  rem_clientEmail :: string
  rem_type :: ReminderType
  scheduledFor :: int
  sentAt :: "int option"
  status :: ReminderStatus
  template :: string

record InvoiceReminderData =
  invoiceId :: string
  clientId :: string
  clientName :: string
  clientEmail :: string
  amount :: int
  dueDate :: "int option"
  caseTitle :: "string option"

definition DEFAULT_CONFIG :: ReminderConfig where
  "DEFAULT_CONFIG =
     \<lparr>daysBeforeDue = [3, 1], daysAfterDue = [1, 7, 14, 30],
      enableEmail = True, enablePush = True, maxReminders = 5\<rparr>"

text \<open>
  The service object: its configuration and the private map \<open>reminders\<close>, which the
  class declares and initialises but no method reads or writes.
\<close>

record CollectionService =
  config :: ReminderConfig
  reminders :: "string \<rightharpoonup> Reminder list"

definition setConfig :: "(ReminderConfig \<Rightarrow> ReminderConfig) \<Rightarrow> CollectionService \<Rightarrow> CollectionService" where
  "setConfig upd this = this\<lparr>config := upd (config this)\<rparr>"

definition getConfig :: "CollectionService \<Rightarrow> ReminderConfig" where
  "getConfig this = config this"

section \<open>Numbers, strings and arrays of the host language\<close>

definition MS_PER_DAY :: int where
  "MS_PER_DAY = 1000 * 60 * 60 * 24"

text \<open>
  \<open>Math.ceil((dueDate.getTime() - today.getTime()) / MS_PER_DAY)\<close>: the ceiling of
  the quotient, written with floor division (\<open>div\<close> on \<open>int\<close> rounds down). The
  difference of two time values is an exact integer, and for instants less than
  \<open>2^27\<close> days apart the rounded floating-point quotient has the ceiling of the
  exact one.
\<close>

definition daysUntilDue :: "int \<Rightarrow> int \<Rightarrow> int" where
  "daysUntilDue due today = - ((today - due) div MS_PER_DAY)"

text \<open>
  The local time zone of the host, as ECMAScript sees it: the offset of local time
  from UTC at an instant (\<open>LocalTZA(t, true)\<close>) and the offset by which a local time
  value is read back as an instant (\<open>LocalTZA(t, false)\<close>), both in milliseconds.
  Across a clock change the two differ.
\<close>

record TimeZone =
  offsetAtUTC :: "int \<Rightarrow> int"
  offsetAtLocal :: "int \<Rightarrow> int"

definition LocalTime :: "TimeZone \<Rightarrow> int \<Rightarrow> int" where
  "LocalTime tz t = t + offsetAtUTC tz t"

definition UTC :: "TimeZone \<Rightarrow> int \<Rightarrow> int" where
  "UTC tz l = l - offsetAtLocal tz l"

text \<open>
  \<open>d.setDate(d.getDate() + n)\<close>: the date is taken to local time, its day of the
  month is moved by \<open>n\<close> with the time within the day kept (\<open>MakeDay\<close> and
  \<open>MakeDate\<close> make this \<open>n\<close> times 24 hours on the local time value), and the
  result is read back as an instant.
\<close>

definition addDays :: "TimeZone \<Rightarrow> int \<Rightarrow> int \<Rightarrow> int" where
  "addDays tz d n = UTC tz (LocalTime tz d + n * MS_PER_DAY)"

text \<open>\<open>xs.slice(0, e)\<close>: a negative end counts from the end of the array.\<close>

definition slice0 :: "int \<Rightarrow> 'a list \<Rightarrow> 'a list" where
  "slice0 e xs =
     (if e < 0 then take (nat (int (length xs) + e)) xs else take (nat e) xs)"

text \<open>Decimal rendering of an integer inside a template literal.\<close>

definition digit_char :: "nat \<Rightarrow> char" where
  "digit_char n = char_of (48 + n)"

function string_of_nat :: "nat \<Rightarrow> string" where
  "string_of_nat n =
     (if n < 10 then [digit_char n]
      else string_of_nat (n div 10) @ [digit_char (n mod 10)])"
  by pat_completeness auto
termination
  by (relation "measure (\<lambda>n. n)") auto

declare string_of_nat.simps [simp del]

definition string_of_int :: "int \<Rightarrow> string" where
  "string_of_int i =
     (if i < 0 then CHR ''-'' # string_of_nat (nat (- i)) else string_of_nat (nat i))"

section \<open>Planning: calculateReminders\<close>

text \<open>The object pushed by the body of the first loop, for the offset \<open>days\<close>.\<close>

definition beforeReminder ::
  "InvoiceReminderData \<Rightarrow> TimeZone \<Rightarrow> int \<Rightarrow> int \<Rightarrow> int \<Rightarrow> Reminder" where
  "beforeReminder invoice tz today dud days =
     \<lparr>rem_id = ''rem_'' @ invoiceId invoice @ ''_before_'' @ string_of_int days,
      rem_invoiceId = invoiceId invoice,
      rem_clientId = clientId invoice,
      rem_clientEmail = clientEmail invoice,
      rem_type = due_soon,
      scheduledFor = addDays tz today (dud - days),
      sentAt = None,
      status = Pending,
      template = (if dud \<le> 1 then ''payment_reminder_urgent'' else ''payment_reminder'')\<rparr>"

text \<open>The three successive \<open>if\<close> statements that choose the type in the second loop.\<close>

definition afterType :: "int \<Rightarrow> ReminderType" where
  "afterType days =
     (let t = overdue_1;
          t = (if days \<ge> 7 then overdue_7 else t);
          t = (if days \<ge> 14 then overdue_14 else t);
          t = (if days \<ge> 30 then overdue_30 else t)
      in t)"

definition afterReminder ::
  "InvoiceReminderData \<Rightarrow> TimeZone \<Rightarrow> int \<Rightarrow> int \<Rightarrow> Reminder" where
  "afterReminder invoice tz due days =
     \<lparr>rem_id = ''rem_'' @ invoiceId invoice @ ''_after_'' @ string_of_int days,
      rem_invoiceId = invoiceId invoice,
      rem_clientId = clientId invoice,
      rem_clientEmail = clientEmail invoice,
      rem_type = afterType days,
      scheduledFor = addDays tz due days,
      sentAt = None,
      status = Pending,
      template = (if days \<ge> 30 then ''final_warning'' else ''invoice_overdue'')\<rparr>"

text \<open>The two \<open>for\<close> loops, each pushing onto the array \<open>reminders\<close>.\<close>

fun beforeDueLoop ::
  "InvoiceReminderData \<Rightarrow> TimeZone \<Rightarrow> int \<Rightarrow> int \<Rightarrow> int list \<Rightarrow> Reminder list
     \<Rightarrow> Reminder list" where
  "beforeDueLoop invoice tz today dud [] rs = rs"
| "beforeDueLoop invoice tz today dud (days # rest) rs =
     (if dud \<ge> days
      then beforeDueLoop invoice tz today dud rest
             (rs @ [beforeReminder invoice tz today dud days])
      else beforeDueLoop invoice tz today dud rest rs)"

fun afterDueLoop ::
  "InvoiceReminderData \<Rightarrow> TimeZone \<Rightarrow> int \<Rightarrow> int \<Rightarrow> int list \<Rightarrow> Reminder list
     \<Rightarrow> Reminder list" where
  "afterDueLoop invoice tz due dud [] rs = rs"
| "afterDueLoop invoice tz due dud (days # rest) rs =
     (if dud < - days
      then afterDueLoop invoice tz due dud rest (rs @ [afterReminder invoice tz due days])
      else afterDueLoop invoice tz due dud rest rs)"

text \<open>
  \<open>calculateReminders(invoice)\<close>; \<open>today\<close> is the value of its single \<open>new Date()\<close>
  and \<open>tz\<close> the time zone of the host. For an Invalid Date \<open>daysUntilDue\<close> is NaN,
  both comparisons are false for every offset, and the empty array is sliced.
\<close>

definition calculateReminders ::
  "CollectionService \<Rightarrow> TimeZone \<Rightarrow> int \<Rightarrow> InvoiceReminderData \<Rightarrow> Reminder list" where
  "calculateReminders this tz today invoice =
     (case dueDate invoice of
        None \<Rightarrow> slice0 (maxReminders (config this)) []
      | Some due \<Rightarrow>
          (let dud = daysUntilDue due today;
               rs = beforeDueLoop invoice tz today dud (daysBeforeDue (config this)) [];
               rs = afterDueLoop invoice tz due dud (daysAfterDue (config this)) rs
           in slice0 (maxReminders (config this)) rs))"

section \<open>The environment: clock, time zone, console and e-mail service\<close>

text \<open>
  Every \<open>new Date()\<close> and \<open>Date.now()\<close> reads the wall clock. The world carries the
  clock as an arbitrary sequence of readings (\<open>time w n\<close> is the value of the n-th
  reading) together with the number of readings made so far, so that time may pass
  by any amount between two readings, in particular across an \<open>await\<close>. Console
  output is kept as a list of entries, one constructor per logging statement of the
  source. Calls are taken to run one after another: no other task interleaves at an
  \<open>await\<close>.
\<close>

datatype LogEntry =
    CollectionSending ReminderType string
  | CollectionFailed string
  | EmailServiceDisabled
  | EmailUnknownTemplate string
  | EmailSimulated string string

record World =
  time :: "nat \<Rightarrow> int"
  reads :: nat
  zone :: TimeZone
  console :: "LogEntry list"
  isEnabled :: bool

definition newDate :: "World \<Rightarrow> int \<times> World" where
  "newDate w = (time w (reads w), w\<lparr>reads := Suc (reads w)\<rparr>)"

definition consoleLog :: "LogEntry \<Rightarrow> World \<Rightarrow> World" where
  "consoleLog e w = w\<lparr>console := console w @ [e]\<rparr>"

text \<open>
  A call of \<open>calculateReminders\<close> in the world: it reads the clock once and does
  its calendar arithmetic in the time zone of the host.
\<close>

definition calculateRemindersNow ::
  "CollectionService \<Rightarrow> InvoiceReminderData \<Rightarrow> World \<Rightarrow> Reminder list \<times> World" where
  "calculateRemindersNow this invoice w =
     (let (today, w1) = newDate w in (calculateReminders this (zone w) today invoice, w1))"

text \<open>
  The e-mail payload built by \<open>sendReminder\<close>. The field \<open>dueDate\<close> of the data is the
  date before its locale formatting. Of the response only \<open>success\<close> and
  \<open>timestamp\<close> are kept: \<open>messageId\<close> (built from \<open>Math.random\<close>) and \<open>preview\<close>
  (the rendered body) are read by no caller in the collection service.
\<close>

record EmailData =
  data_clientName :: string
  data_invoiceId :: string
  data_amount :: int
  data_dueDate :: "int option"
  data_caseTitle :: "string option"
  data_daysOverdue :: "int option"

record EmailPayload =
  mail_to :: string
  mail_template :: string
  mail_data :: EmailData

record EmailResponse =
  success :: bool
  timestamp :: int

text \<open>
  An awaited promise either resolves with a value or rejects with an error; a
  promise that never settles is not modelled.
\<close>

datatype EmailOutcome = Resolved EmailResponse | Rejected string

type_synonym EmailSender = "EmailPayload \<Rightarrow> World \<Rightarrow> EmailOutcome \<times> World"

text \<open>The keys of the table \<open>EMAIL_TEMPLATES\<close> (emailService.ts).\<close>

definition EMAIL_TEMPLATES :: "string list" where
  "EMAIL_TEMPLATES =
     [''welcome'', ''invoice_created'', ''invoice_paid'', ''invoice_overdue'',
      ''case_update'', ''new_message'', ''hearing_reminder'', ''document_available'',
      ''payment_reminder'']"

text \<open>
  \<open>EmailService.sendEmail\<close>, the mock of the repository: it resolves in each of its
  three branches and never rejects. The successful branch reads the clock twice
  (\<open>Date.now()\<close> for the message id, \<open>new Date()\<close> for the timestamp).
\<close>

definition sendEmail :: EmailSender where
  "sendEmail payload w =
     (if \<not> isEnabled w then
        (let w1 = consoleLog EmailServiceDisabled w;
             (t, w2) = newDate w1
         in (Resolved \<lparr>success = False, timestamp = t\<rparr>, w2))
      else if mail_template payload \<notin> set EMAIL_TEMPLATES then
        (let w1 = consoleLog (EmailUnknownTemplate (mail_template payload)) w;
             (t, w2) = newDate w1
         in (Resolved \<lparr>success = False, timestamp = t\<rparr>, w2))
      else
        (let w1 = consoleLog (EmailSimulated (mail_to payload) (mail_template payload)) w;
             (t1, w2) = newDate w1;
             (t2, w3) = newDate w2
         in (Resolved \<lparr>success = True, timestamp = t2\<rparr>, w3)))"

section \<open>Dispatch: sendReminder and processPendingReminders\<close>

fun templateMap :: "ReminderType \<Rightarrow> string" where
  "templateMap due_soon = ''payment_reminder''"
| "templateMap overdue_1 = ''invoice_overdue''"
| "templateMap overdue_7 = ''invoice_overdue''"
| "templateMap overdue_14 = ''invoice_overdue''"
| "templateMap overdue_30 = ''final_warning''"
| "templateMap final_warning = ''final_warning''"

text \<open>
  An \<open>async\<close> method completes by returning a value or by throwing. \<open>sendReminder\<close>
  mutates the reminder object it was given, so the model returns the reminder as it
  is left behind. The e-mail service is the imported singleton \<open>emailService\<close>; the
  model takes its \<open>sendEmail\<close> as the parameter \<open>send\<close>, so that a service whose
  promise rejects can be considered beside the mock.
\<close>

datatype 'a Completion = Returned 'a | Threw string

definition markSent :: "Reminder \<Rightarrow> World \<Rightarrow> bool Completion \<times> Reminder \<times> World" where
  "markSent reminder w =
     (let (t, w') = newDate w
      in (Returned True, reminder\<lparr>status := Sent, sentAt := Some t\<rparr>, w'))"

definition reminderPayload :: "Reminder \<Rightarrow> InvoiceReminderData \<Rightarrow> int \<Rightarrow> EmailPayload" where
  "reminderPayload reminder invoice now =
     \<lparr>mail_to = clientEmail invoice,
      mail_template = templateMap (rem_type reminder),
      mail_data =
        \<lparr>data_clientName = clientName invoice,
         data_invoiceId = invoiceId invoice,
         data_amount = amount invoice,
         data_dueDate = dueDate invoice,
         data_caseTitle = caseTitle invoice,
         data_daysOverdue = map_option (\<lambda>due. \<bar>daysUntilDue due now\<bar>) (dueDate invoice)\<rparr>\<rparr>"

definition sendReminder ::
  "EmailSender \<Rightarrow> CollectionService \<Rightarrow> Reminder \<Rightarrow> InvoiceReminderData \<Rightarrow> World
     \<Rightarrow> bool Completion \<times> Reminder \<times> World" where
  "sendReminder send this reminder invoice w =
     (let w1 = consoleLog (CollectionSending (rem_type reminder) (invoiceId invoice)) w
      in if enableEmail (config this) then
           (let (now, w2) = newDate w1
            in case send (reminderPayload reminder invoice now) w2 of
                 (Rejected err, w3) \<Rightarrow> (Threw err, reminder, w3)
               | (Resolved resp, w3) \<Rightarrow> markSent reminder w3)
         else markSent reminder w1)"

record Summary =
  sent :: nat
  failed :: nat

text \<open>
  A statement that may throw, run in a world. \<open>tryCatch\<close> is the \<open>try\<close>/\<open>catch\<close>
  statement: a throw of the body is handed to the handler; outside of it a throw
  ends the enclosing loops and the method, which the loops below pass on.
\<close>

type_synonym 'a Eff = "World \<Rightarrow> 'a Completion \<times> World"

definition tryCatch :: "'a Eff \<Rightarrow> (string \<Rightarrow> 'a Eff) \<Rightarrow> 'a Eff" where
  "tryCatch body handler w =
     (case body w of
        (Returned v, w') \<Rightarrow> (Returned v, w')
      | (Threw err, w') \<Rightarrow> handler err w')"

text \<open>The \<open>try\<close> block and the \<open>catch\<close> block of the inner loop.\<close>

definition tryBlock ::
  "EmailSender \<Rightarrow> CollectionService \<Rightarrow> InvoiceReminderData \<Rightarrow> Reminder \<Rightarrow> Summary
     \<Rightarrow> Summary Eff" where
  "tryBlock send this invoice reminder acc w =
     (case sendReminder send this reminder invoice w of
        (Returned ok, r', w') \<Rightarrow>
          (Returned (if ok then acc\<lparr>sent := sent acc + 1\<rparr>
                     else acc\<lparr>failed := failed acc + 1\<rparr>), w')
      | (Threw err, r', w') \<Rightarrow> (Threw err, w'))"

definition catchBlock :: "Summary \<Rightarrow> string \<Rightarrow> Summary Eff" where
  "catchBlock acc err w =
     (Returned (acc\<lparr>failed := failed acc + 1\<rparr>), consoleLog (CollectionFailed err) w)"

text \<open>
  The body of the inner loop of \<open>processPendingReminders\<close>. The clock is read only
  when the status test, the left operand of \<open>&&\<close>, holds.
\<close>

definition processReminder ::
  "EmailSender \<Rightarrow> CollectionService \<Rightarrow> InvoiceReminderData \<Rightarrow> Reminder \<Rightarrow> Summary
     \<Rightarrow> Summary Eff" where
  "processReminder send this invoice reminder acc w =
     (if status reminder = Pending then
        (let (now, w1) = newDate w
         in if now \<ge> scheduledFor reminder then
              tryCatch (tryBlock send this invoice reminder acc) (catchBlock acc) w1
            else (Returned acc, w1))
      else (Returned acc, w))"

fun processReminders ::
  "EmailSender \<Rightarrow> CollectionService \<Rightarrow> InvoiceReminderData \<Rightarrow> Reminder list \<Rightarrow> Summary
     \<Rightarrow> Summary Eff" where
  "processReminders send this invoice [] acc w = (Returned acc, w)"
| "processReminders send this invoice (reminder # rest) acc w =
     (case processReminder send this invoice reminder acc w of
        (Returned acc', w') \<Rightarrow> processReminders send this invoice rest acc' w'
      | (Threw err, w') \<Rightarrow> (Threw err, w'))"

fun processInvoices ::
  "EmailSender \<Rightarrow> CollectionService \<Rightarrow> InvoiceReminderData list \<Rightarrow> Summary
     \<Rightarrow> Summary Eff" where
  "processInvoices send this [] acc w = (Returned acc, w)"
| "processInvoices send this (invoice # rest) acc w =
     (case calculateRemindersNow this invoice w of
        (rs, w1) \<Rightarrow>
          (case processReminders send this invoice rs acc w1 of
             (Returned acc', w') \<Rightarrow> processInvoices send this rest acc' w'
           | (Threw err, w') \<Rightarrow> (Threw err, w')))"

definition processPendingReminders ::
  "EmailSender \<Rightarrow> CollectionService \<Rightarrow> InvoiceReminderData list \<Rightarrow> Summary Eff" where
  "processPendingReminders send this invoices w =
     processInvoices send this invoices \<lparr>sent = 0, failed = 0\<rparr> w"

text \<open>
  The cron job the source speaks of: \<open>n\<close> calls of \<open>processPendingReminders\<close> on the
  same batch, one after the other, with what each call returned.
\<close>

fun runCycles ::
  "EmailSender \<Rightarrow> CollectionService \<Rightarrow> InvoiceReminderData list \<Rightarrow> nat \<Rightarrow> World
     \<Rightarrow> Summary Completion list \<times> World" where
  "runCycles send this invoices 0 w = ([], w)"
| "runCycles send this invoices (Suc n) w =
     (case processPendingReminders send this invoices w of
        (c, w1) \<Rightarrow>
          (case runCycles send this invoices n w1 of
             (cs, w2) \<Rightarrow> (c # cs, w2)))"

section \<open>What a cycle is measured against\<close>

text \<open>
  The dispatches of a run are read off the console: \<open>sendReminder\<close> logs the type of
  the reminder and the invoice before anything else. \<open>dueReminders\<close> are the planned
  reminders of an invoice whose scheduled time has been reached, for a clock that
  reads \<open>T\<close>. A steady sender leaves the clock and the time zone of the world alone
  and writes no dispatch line of its own.
\<close>

fun isSending :: "LogEntry \<Rightarrow> bool" where
  "isSending (CollectionSending t i) = True"
| "isSending e = False"

definition sendingLog :: "World \<Rightarrow> LogEntry list" where
  "sendingLog w = filter isSending (console w)"

definition dueReminders ::
  "CollectionService \<Rightarrow> TimeZone \<Rightarrow> int \<Rightarrow> InvoiceReminderData \<Rightarrow> Reminder list" where
  "dueReminders this tz T invoice =
     filter (\<lambda>r. scheduledFor r \<le> T) (calculateReminders this tz T invoice)"

text \<open>
  For a sender whose promise rejects exactly on the payloads \<open>rejects\<close>: the due
  reminders whose dispatch throws, and the dispatch lines of a whole batch.
\<close>

definition rejectedDue ::
  "CollectionService \<Rightarrow> (EmailPayload \<Rightarrow> bool) \<Rightarrow> TimeZone \<Rightarrow> int \<Rightarrow> InvoiceReminderData
     \<Rightarrow> Reminder list" where
  "rejectedDue this rejects tz T invoice =
     filter (\<lambda>r. enableEmail (config this) \<and> rejects (reminderPayload r invoice T))
       (dueReminders this tz T invoice)"

definition dispatchLines ::
  "CollectionService \<Rightarrow> TimeZone \<Rightarrow> int \<Rightarrow> InvoiceReminderData list \<Rightarrow> LogEntry list" where
  "dispatchLines this tz T invoices =
     concat (map (\<lambda>invoice. map (\<lambda>r. CollectionSending (rem_type r) (invoiceId invoice))
                                 (dueReminders this tz T invoice)) invoices)"

definition steadySender :: "EmailSender \<Rightarrow> bool" where
  "steadySender send \<longleftrightarrow>
     (\<forall>p w. time (snd (send p w)) = time w \<and> zone (snd (send p w)) = zone w
        \<and> sendingLog (snd (send p w)) = sendingLog w)"

section \<open>Example inputs\<close>

text \<open>
  A service in its initial state (the default configuration, an empty map) and an
  invoice with a given due date, used where a statement is evaluated on a concrete
  input.
\<close>

definition defaultService :: CollectionService where
  "defaultService = \<lparr>config = DEFAULT_CONFIG, reminders = Map.empty\<rparr>"

definition invoiceDue :: "int \<Rightarrow> InvoiceReminderData" where
  "invoiceDue due =
     \<lparr>invoiceId = ''INV-001'', clientId = ''CL-7'', clientName = ''Ana'',
      clientEmail = ''ana@example.com'', amount = 1500, dueDate = Some due,
      caseTitle = None\<rparr>"

text \<open>The default service after \<open>setConfig({ maxReminders: m })\<close>.\<close>

definition serviceWithMax :: "int \<Rightarrow> CollectionService" where
  "serviceWithMax m = setConfig (\<lambda>c. c\<lparr>maxReminders := m\<rparr>) defaultService"

text \<open>
  Two time zones: UTC, and Madrid around its clock change of 29 March 2026 (01:00
  UTC, from one hour to two hours ahead of UTC; a local time that the change skips
  is read with the offset before it).
\<close>

definition utcZone :: TimeZone where
  "utcZone = \<lparr>offsetAtUTC = (\<lambda>t. 0), offsetAtLocal = (\<lambda>l. 0)\<rparr>"

definition madridZone :: TimeZone where
  "madridZone =
     \<lparr>offsetAtUTC = (\<lambda>t. if t < 1774746000000 then 3600000 else 7200000),
      offsetAtLocal = (\<lambda>l. if l < 1774753200000 then 3600000 else 7200000)\<rparr>"

text \<open>
  A world in UTC whose clock starts at \<open>t\<close> and advances by half a second per
  reading, and one whose clock reads \<open>t\<close> throughout.
\<close>

definition worldAt :: "int \<Rightarrow> World" where
  "worldAt t =
     \<lparr>time = (\<lambda>n. t + 500 * int n), reads = 0, zone = utcZone, console = [],
      isEnabled = True\<rparr>"

definition frozenWorld :: "int \<Rightarrow> World" where
  "frozenWorld t =
     \<lparr>time = (\<lambda>n. t), reads = 0, zone = utcZone, console = [], isEnabled = True\<rparr>"

text \<open>
  An e-mail service whose promise rejects for one recipient and that behaves as the
  mock for every other.
\<close>

definition rejectingFor :: "string \<Rightarrow> EmailSender" where
  "rejectingFor addr payload w =
     (if mail_to payload = addr then (Rejected ''SMTP connection refused'', w)
      else sendEmail payload w)"

section \<open>The planner as a filter over the configured offsets\<close>

lemma beforeDueLoop_eq:
  "beforeDueLoop invoice tz today dud ds rs =
     rs @ map (beforeReminder invoice tz today dud) (filter (\<lambda>d. d \<le> dud) ds)"
  by (induction ds arbitrary: rs) simp_all

lemma afterDueLoop_eq:
  "afterDueLoop invoice tz due dud ds rs =
     rs @ map (afterReminder invoice tz due) (filter (\<lambda>a. dud < - a) ds)"
  by (induction ds arbitrary: rs) simp_all

lemma calculateReminders_Some:
  "dueDate invoice = Some due \<Longrightarrow>
   calculateReminders this tz today invoice =
     slice0 (maxReminders (config this))
       (map (beforeReminder invoice tz today (daysUntilDue due today))
          (filter (\<lambda>d. d \<le> daysUntilDue due today) (daysBeforeDue (config this))) @
        map (afterReminder invoice tz due)
          (filter (\<lambda>a. daysUntilDue due today < - a) (daysAfterDue (config this))))"
  by (simp add: calculateReminders_def Let_def beforeDueLoop_eq afterDueLoop_eq)

lemma calculateReminders_None:
  "dueDate invoice = None \<Longrightarrow> calculateReminders this tz today invoice = []"
  by (simp add: calculateReminders_def slice0_def)

lemma set_slice0: "set (slice0 e xs) \<subseteq> set xs"
  by (simp add: slice0_def set_take_subset)

lemma map_slice0: "map f (slice0 e xs) = slice0 e (map f xs)"
  by (simp add: slice0_def take_map)

lemma distinct_slice0: "distinct xs \<Longrightarrow> distinct (slice0 e xs)"
  by (simp add: slice0_def)

lemma length_slice0:
  "length (slice0 e xs) = (if e < 0 then nat (int (length xs) + e) else min (nat e) (length xs))"
  by (cases "e < 0") (auto simp: slice0_def)

lemma slice0_all: "int (length xs) \<le> e \<Longrightarrow> slice0 e xs = xs"
  by (simp add: slice0_def)

lemma afterType_not_due_soon: "afterType a \<noteq> due_soon"
  by (simp add: afterType_def Let_def)

lemma rem_type_beforeReminder [simp]: "rem_type (beforeReminder i tz t u d) = due_soon"
  by (simp add: beforeReminder_def)

lemma rem_type_afterReminder [simp]: "rem_type (afterReminder i tz due d) = afterType d"
  by (simp add: afterReminder_def)

lemma scheduledFor_beforeReminder [simp]:
  "scheduledFor (beforeReminder i tz t u d) = addDays tz t (u - d)"
  by (simp add: beforeReminder_def)

lemma template_beforeReminder [simp]:
  "template (beforeReminder i tz t u d) =
     (if u \<le> 1 then ''payment_reminder_urgent'' else ''payment_reminder'')"
  by (simp add: beforeReminder_def)

lemma status_beforeReminder [simp]: "status (beforeReminder i tz t u d) = Pending"
  by (simp add: beforeReminder_def)

lemma scheduledFor_afterReminder [simp]:
  "scheduledFor (afterReminder i tz due d) = addDays tz due d"
  by (simp add: afterReminder_def)

lemma template_afterReminder [simp]:
  "template (afterReminder i tz due d) =
     (if d \<ge> 30 then ''final_warning'' else ''invoice_overdue'')"
  by (simp add: afterReminder_def)

lemma status_afterReminder [simp]: "status (afterReminder i tz due d) = Pending"
  by (simp add: afterReminder_def)

lemma digit_char_simps:
  "digit_char 0 = CHR ''0''" "digit_char (Suc 0) = CHR ''1''" "digit_char 2 = CHR ''2''"
  "digit_char 3 = CHR ''3''" "digit_char 4 = CHR ''4''" "digit_char 5 = CHR ''5''"
  "digit_char 6 = CHR ''6''" "digit_char 7 = CHR ''7''" "digit_char 8 = CHR ''8''"
  "digit_char 9 = CHR ''9''"
  by code_simp+

text \<open>
  Calendar days and hours. Moving a date by \<open>n\<close> calendar days is moving it by \<open>n\<close>
  times 24 hours exactly when the local time reached is read back with the offset
  the date started from; in a zone whose offsets differ by less than a day a move by
  a positive number of days leads to a later instant.
\<close>

lemma addDays_shift:
  "addDays tz d n =
     d + n * MS_PER_DAY
       + (offsetAtUTC tz d - offsetAtLocal tz (LocalTime tz d + n * MS_PER_DAY))"
  by (simp add: addDays_def UTC_def LocalTime_def)

lemma addDays_same_offset:
  "offsetAtLocal tz (LocalTime tz d + n * MS_PER_DAY) = offsetAtUTC tz d \<Longrightarrow>
     addDays tz d n = d + n * MS_PER_DAY"
  by (simp add: addDays_def UTC_def LocalTime_def)

lemma addDays_utcZone [simp]: "addDays utcZone d n = d + n * MS_PER_DAY"
  by (simp add: addDays_def UTC_def LocalTime_def utcZone_def)

lemma addDays_forward:
  assumes "\<forall>t l. offsetAtLocal tz l - offsetAtUTC tz t < MS_PER_DAY" and "0 < n"
  shows "d < addDays tz d n"
proof -
  have "offsetAtLocal tz (LocalTime tz d + n * MS_PER_DAY) - offsetAtUTC tz d < MS_PER_DAY"
    using assms(1) by blast
  moreover have "MS_PER_DAY \<le> n * MS_PER_DAY"
    using assms(2) by (simp add: MS_PER_DAY_def)
  ultimately show ?thesis
    by (simp add: addDays_def UTC_def LocalTime_def)
qed

lemmas plan_defs =
  calculateReminders_Some invoiceDue_def defaultService_def DEFAULT_CONFIG_def
  daysUntilDue_def MS_PER_DAY_def slice0_def afterType_def

section \<open>Claims about planning\<close>

subsection \<open>C2: tiers within one planning pass\<close>

text \<open>
  The planner has no deduplication step. Under the default configuration an invoice
  due in three days gets one event for the offset 3 and one for the offset 1, both
  of type \<open>due_soon\<close>.
\<close>

theorem calculateReminders_duplicate_tier:
  "map rem_type (calculateReminders defaultService utcZone 0 (invoiceDue (3 * MS_PER_DAY)))
     = [due_soon, due_soon]"
  by (simp add: plan_defs)

text \<open>
  C2, as the code has it: for every invoice whose due date parses, one planning
  pass returns one event per qualifying configured offset, in configuration order
  and cut by \<open>slice(0, maxReminders)\<close>; its tiers are exactly those of the qualifying
  offsets, duplicates included. Whenever two before-due offsets qualify and
  \<open>maxReminders\<close> is at least 2, the output holds two \<open>due_soon\<close> events. The tiers
  are pairwise distinct when at most one before-due offset qualifies and the
  qualifying after-due offsets fall into pairwise distinct tier buckets.
\<close>

theorem calculateReminders_tiers:
  assumes due: "dueDate invoice = Some due"
  shows "map rem_type (calculateReminders this tz today invoice) =
           slice0 (maxReminders (config this))
             (map (\<lambda>d. due_soon)
                (filter (\<lambda>d. d \<le> daysUntilDue due today) (daysBeforeDue (config this))) @
              map afterType
                (filter (\<lambda>a. daysUntilDue due today < - a) (daysAfterDue (config this))))
       \<and> (2 \<le> maxReminders (config this)
            \<and> 2 \<le> length (filter (\<lambda>d. d \<le> daysUntilDue due today) (daysBeforeDue (config this)))
          \<longrightarrow> take 2 (map rem_type (calculateReminders this tz today invoice))
                = [due_soon, due_soon]
              \<and> \<not> distinct (map rem_type (calculateReminders this tz today invoice)))
       \<and> (length (filter (\<lambda>d. d \<le> daysUntilDue due today) (daysBeforeDue (config this))) \<le> 1
            \<and> distinct (map afterType
                 (filter (\<lambda>a. daysUntilDue due today < - a) (daysAfterDue (config this))))
          \<longrightarrow> distinct (map rem_type (calculateReminders this tz today invoice)))"
proof -
  let ?bs = "filter (\<lambda>d. d \<le> daysUntilDue due today) (daysBeforeDue (config this))"
  let ?as = "filter (\<lambda>a. daysUntilDue due today < - a) (daysAfterDue (config this))"
  let ?m = "maxReminders (config this)"
  let ?ts = "map rem_type (calculateReminders this tz today invoice)"
  have eq: "?ts = slice0 ?m (map (\<lambda>d. due_soon) ?bs @ map afterType ?as)"
    by (simp add: calculateReminders_Some [OF due] map_slice0 comp_def)
  have dup: "take 2 ?ts = [due_soon, due_soon] \<and> \<not> distinct ?ts"
    if m: "2 \<le> ?m" and two: "2 \<le> length ?bs"
  proof -
    from two obtain b1 b2 bs' where bs: "?bs = b1 # b2 # bs'"
      by (cases ?bs; cases "tl ?bs") auto
    from m obtain k where k: "nat ?m = Suc (Suc k)"
      by (cases "nat ?m"; cases "nat ?m - 1") auto
    have ts: "?ts = due_soon # due_soon #
        take k (map (\<lambda>d. due_soon) bs' @ map afterType ?as)"
      using m k unfolding eq bs by (simp add: slice0_def)
    show ?thesis
      unfolding ts by simp
  qed
  have dist: "distinct ?ts"
    if before: "length ?bs \<le> 1" and after: "distinct (map afterType ?as)"
  proof -
    have "distinct (map (\<lambda>d. due_soon) ?bs)"
    proof (cases ?bs)
      case Nil
      then show ?thesis by simp
    next
      case (Cons b bs')
      with before have "bs' = []" by simp
      with Cons show ?thesis by simp
    qed
    moreover have "set (map (\<lambda>d. due_soon) ?bs) \<inter> set (map afterType ?as) = {}"
      by (auto simp: afterType_not_due_soon [symmetric])
    ultimately have "distinct (map (\<lambda>d. due_soon) ?bs @ map afterType ?as)"
      using after by simp
    then show ?thesis
      unfolding eq by (rule distinct_slice0)
  qed
  show ?thesis
  proof (intro conjI impI)
    show "?ts = slice0 ?m (map (\<lambda>d. due_soon) ?bs @ map afterType ?as)"
      by (rule eq)
  next
    assume h: "2 \<le> ?m \<and> 2 \<le> length ?bs"
    then show "take 2 ?ts = [due_soon, due_soon]"
      using dup by blast
    from h show "\<not> distinct ?ts"
      using dup by blast
  next
    assume "length ?bs \<le> 1 \<and> distinct (map afterType ?as)"
    then show "distinct ?ts"
      using dist by blast
  qed
qed

theorem calculateReminders_tiers_witness:
  "map rem_type
     (calculateReminders
        (defaultService\<lparr>config := DEFAULT_CONFIG\<lparr>daysBeforeDue := [7, 2, 1],
           daysAfterDue := [1, 3, 7]\<rparr>\<rparr>)
        utcZone 0 (invoiceDue (2 * MS_PER_DAY)))
     = [due_soon, due_soon]
   \<and> \<not> distinct (map rem_type
     (calculateReminders
        (defaultService\<lparr>config := DEFAULT_CONFIG\<lparr>daysBeforeDue := [7, 2, 1],
           daysAfterDue := [1, 3, 7]\<rparr>\<rparr>)
        utcZone 0 (invoiceDue (2 * MS_PER_DAY))))
   \<and> map rem_type
     (calculateReminders
        (defaultService\<lparr>config := DEFAULT_CONFIG\<lparr>daysBeforeDue := [7, 2, 1],
           daysAfterDue := [1, 3, 7]\<rparr>\<rparr>)
        utcZone (10 * MS_PER_DAY) (invoiceDue 0))
     = [overdue_1, overdue_1, overdue_7]"
  using calculateReminders_tiers [of "invoiceDue (2 * MS_PER_DAY)" "2 * MS_PER_DAY"
        "defaultService\<lparr>config := DEFAULT_CONFIG\<lparr>daysBeforeDue := [7, 2, 1],
           daysAfterDue := [1, 3, 7]\<rparr>\<rparr>" utcZone 0]
    calculateReminders_tiers [of "invoiceDue 0" 0
        "defaultService\<lparr>config := DEFAULT_CONFIG\<lparr>daysBeforeDue := [7, 2, 1],
           daysAfterDue := [1, 3, 7]\<rparr>\<rparr>" utcZone "10 * MS_PER_DAY"]
  by (simp add: invoiceDue_def defaultService_def DEFAULT_CONFIG_def
      daysUntilDue_def MS_PER_DAY_def slice0_def afterType_def)

subsection \<open>C3: an invoice due in three days\<close>

text \<open>
  With the offsets \<open>[3, 1]\<close> and three days to go, both offsets satisfy
  \<open>daysUntilDue \<ge> days\<close>, and the default \<open>maxReminders\<close> of 5 keeps both events.
\<close>

theorem calculateReminders_three_days_two_events:
  "daysUntilDue (3 * MS_PER_DAY) 0 = 3
   \<and> daysBeforeDue (config defaultService) = [3, 1]
   \<and> length (calculateReminders defaultService utcZone 0 (invoiceDue (3 * MS_PER_DAY))) = 2"
  by (simp add: plan_defs)

text \<open>
  C3, as the code has it: for an invoice with \<open>daysUntilDue = 3\<close>, the before-due
  offsets \<open>[3, 1]\<close> and no qualifying after-due offset, planning returns
  \<open>slice(0, maxReminders)\<close> of two \<open>due_soon\<close> events, both with the standard
  template \<open>payment_reminder\<close>: the one for the offset 3, scheduled for today moved
  by 0 calendar days, then the one for the offset 1, scheduled for today moved by 2
  calendar days. Both events are returned exactly when \<open>maxReminders \<ge> 2\<close>, and
  exactly one is returned exactly when \<open>maxReminders\<close> is 1 or -1. The two scheduled
  times are today and today plus 48 hours, each plus the difference between the
  offset from UTC that holds today and the offset with which the local time
  reached is read back, which is zero when no clock change lies in between.
\<close>

theorem calculateReminders_three_days:
  assumes due: "dueDate invoice = Some due"
    and dud: "daysUntilDue due today = 3"
    and before: "daysBeforeDue (config this) = [3, 1]"
    and after: "\<forall>a \<in> set (daysAfterDue (config this)). \<not> 3 < - a"
  shows "map (\<lambda>r. (rem_type r, scheduledFor r, template r))
           (calculateReminders this tz today invoice) =
         slice0 (maxReminders (config this))
           [(due_soon, addDays tz today 0, ''payment_reminder''),
            (due_soon, addDays tz today 2, ''payment_reminder'')]
       \<and> (length (calculateReminders this tz today invoice) = 2
            \<longleftrightarrow> 2 \<le> maxReminders (config this))
       \<and> (length (calculateReminders this tz today invoice) = 1
            \<longleftrightarrow> maxReminders (config this) = 1 \<or> maxReminders (config this) = - 1)
       \<and> addDays tz today 0 =
           today + (offsetAtUTC tz today - offsetAtLocal tz (LocalTime tz today))
       \<and> addDays tz today 2 =
           today + 2 * MS_PER_DAY
             + (offsetAtUTC tz today - offsetAtLocal tz (LocalTime tz today + 2 * MS_PER_DAY))"
proof -
  have none: "filter (\<lambda>a. 3 < - a) (daysAfterDue (config this)) = []"
    using after by (simp add: filter_empty_conv)
  have eq: "calculateReminders this tz today invoice =
      slice0 (maxReminders (config this))
        [beforeReminder invoice tz today 3 3, beforeReminder invoice tz today 3 1]"
    by (simp add: calculateReminders_Some [OF due] dud before none)
  have l: "length (calculateReminders this tz today invoice) =
      (if maxReminders (config this) < 0 then nat (2 + maxReminders (config this))
       else min (nat (maxReminders (config this))) 2)"
    unfolding eq by (simp add: length_slice0 numeral_2_eq_2)
  have two: "length (calculateReminders this tz today invoice) = 2
      \<longleftrightarrow> 2 \<le> maxReminders (config this)"
    unfolding l by (auto simp: min_def)
  have one: "length (calculateReminders this tz today invoice) = 1
      \<longleftrightarrow> maxReminders (config this) = 1 \<or> maxReminders (config this) = - 1"
    unfolding l by (auto simp: min_def)
  have zero: "addDays tz today 0 =
      today + (offsetAtUTC tz today - offsetAtLocal tz (LocalTime tz today))"
    using addDays_shift [of tz today 0] by simp
  have plus2: "addDays tz today 2 =
      today + 2 * MS_PER_DAY
        + (offsetAtUTC tz today - offsetAtLocal tz (LocalTime tz today + 2 * MS_PER_DAY))"
    by (rule addDays_shift)
  have m: "map (\<lambda>r. (rem_type r, scheduledFor r, template r))
           (calculateReminders this tz today invoice) =
         slice0 (maxReminders (config this))
           [(due_soon, addDays tz today 0, ''payment_reminder''),
            (due_soon, addDays tz today 2, ''payment_reminder'')]"
    unfolding eq by (simp add: map_slice0)
  show ?thesis
    using m two one zero plus2 by (intro conjI)
qed

theorem calculateReminders_three_days_witness:
  "daysUntilDue (3 * MS_PER_DAY) 0 = 3
   \<and> map (\<lambda>r. (rem_type r, scheduledFor r, template r))
       (calculateReminders defaultService utcZone 0 (invoiceDue (3 * MS_PER_DAY)))
     = [(due_soon, 0, ''payment_reminder''),
        (due_soon, 2 * MS_PER_DAY, ''payment_reminder'')]
   \<and> map (\<lambda>r. (rem_type r, scheduledFor r, template r))
       (calculateReminders (defaultService\<lparr>config := DEFAULT_CONFIG\<lparr>maxReminders := - 1\<rparr>\<rparr>)
          utcZone 0 (invoiceDue (3 * MS_PER_DAY)))
     = [(due_soon, 0, ''payment_reminder'')]"
  using calculateReminders_three_days [of "invoiceDue (3 * MS_PER_DAY)" "3 * MS_PER_DAY" 0
      defaultService utcZone]
    calculateReminders_three_days [of "invoiceDue (3 * MS_PER_DAY)" "3 * MS_PER_DAY" 0
      "defaultService\<lparr>config := DEFAULT_CONFIG\<lparr>maxReminders := - 1\<rparr>\<rparr>" utcZone]
  by (simp add: invoiceDue_def defaultService_def DEFAULT_CONFIG_def
      daysUntilDue_def MS_PER_DAY_def slice0_def)

subsection \<open>C4: an invoice ten days overdue\<close>

text \<open>
  Ten days after the due date both the offset 1 and the offset 7 satisfy
  \<open>daysUntilDue < - days\<close>; the planner keeps an event for each.
\<close>

theorem calculateReminders_ten_days_overdue_two_events:
  "daysUntilDue 0 (10 * MS_PER_DAY) = - 10
   \<and> daysAfterDue (config defaultService) = [1, 7, 14, 30]
   \<and> map rem_type (calculateReminders defaultService utcZone (10 * MS_PER_DAY) (invoiceDue 0))
       = [overdue_1, overdue_7]"
  by (simp add: plan_defs)

text \<open>
  C4, as the code has it: for an invoice with \<open>daysUntilDue = -10\<close>, the after-due
  offsets \<open>[1, 7, 14, 30]\<close> and no qualifying before-due offset, planning returns
  \<open>slice(0, maxReminders)\<close> of two events with the template \<open>invoice_overdue\<close>: an
  \<open>overdue_1\<close> event scheduled for the due date moved by 1 calendar day, then the
  \<open>overdue_7\<close> event (the 7-day bucket) scheduled for the due date moved by 7
  calendar days. These are the due date plus 24 hours and plus 7 times 24 hours,
  each plus the difference between the offset from UTC that holds at the due date
  and the offset with which the local time reached is read back: zero when no
  clock change lies in between.
\<close>

theorem calculateReminders_ten_days_overdue:
  assumes due: "dueDate invoice = Some due"
    and dud: "daysUntilDue due today = - 10"
    and after: "daysAfterDue (config this) = [1, 7, 14, 30]"
    and before: "\<forall>d \<in> set (daysBeforeDue (config this)). \<not> d \<le> - 10"
  shows "map (\<lambda>r. (rem_type r, scheduledFor r, template r))
           (calculateReminders this tz today invoice) =
         slice0 (maxReminders (config this))
           [(overdue_1, addDays tz due 1, ''invoice_overdue''),
            (overdue_7, addDays tz due 7, ''invoice_overdue'')]
       \<and> addDays tz due 1 =
           due + 1 * MS_PER_DAY
             + (offsetAtUTC tz due - offsetAtLocal tz (LocalTime tz due + 1 * MS_PER_DAY))
       \<and> addDays tz due 7 =
           due + 7 * MS_PER_DAY
             + (offsetAtUTC tz due - offsetAtLocal tz (LocalTime tz due + 7 * MS_PER_DAY))"
proof -
  have "filter (\<lambda>d. d \<le> - 10) (daysBeforeDue (config this)) = []"
    using before by (simp add: filter_empty_conv)
  then have m: "map (\<lambda>r. (rem_type r, scheduledFor r, template r))
           (calculateReminders this tz today invoice) =
         slice0 (maxReminders (config this))
           [(overdue_1, addDays tz due 1, ''invoice_overdue''),
            (overdue_7, addDays tz due 7, ''invoice_overdue'')]"
    by (simp add: calculateReminders_Some [OF due] dud after map_slice0 afterType_def)
  show ?thesis
    using m addDays_shift [of tz due 1] addDays_shift [of tz due 7]
    by (intro conjI)
qed

theorem calculateReminders_ten_days_overdue_witness:
  "daysUntilDue 0 (10 * MS_PER_DAY + 5000) = - 10
   \<and> map (\<lambda>r. (rem_type r, scheduledFor r, template r))
       (calculateReminders defaultService utcZone (10 * MS_PER_DAY + 5000) (invoiceDue 0))
     = [(overdue_1, 86400000, ''invoice_overdue''), (overdue_7, 604800000, ''invoice_overdue'')]
   \<and> daysUntilDue 1774440000000 (1774440000000 + 10 * MS_PER_DAY) = - 10
   \<and> map (\<lambda>r. (rem_type r, scheduledFor r, template r))
       (calculateReminders defaultService madridZone (1774440000000 + 10 * MS_PER_DAY)
          (invoiceDue 1774440000000))
     = [(overdue_1, 1774440000000 + 86400000, ''invoice_overdue''),
        (overdue_7, 1774440000000 + 604800000 - 3600000, ''invoice_overdue'')]"
  using calculateReminders_ten_days_overdue [of "invoiceDue 0" 0 "10 * MS_PER_DAY + 5000"
      defaultService utcZone]
    calculateReminders_ten_days_overdue [of "invoiceDue 1774440000000" 1774440000000
      "1774440000000 + 10 * MS_PER_DAY" defaultService madridZone]
  by (simp add: invoiceDue_def defaultService_def DEFAULT_CONFIG_def
      daysUntilDue_def MS_PER_DAY_def slice0_def addDays_def UTC_def LocalTime_def
      madridZone_def utcZone_def)

subsection \<open>C5: more days to go than the largest before-due offset\<close>

text \<open>
  The first loop tests \<open>daysUntilDue \<ge> days\<close>, which holds for every offset when
  the due date is further away than the largest of them: ten days before the due
  date the default configuration yields an event for each of its two offsets.
\<close>

theorem calculateReminders_beyond_offsets_nonempty:
  "daysUntilDue (10 * MS_PER_DAY) 0 = 10
   \<and> daysBeforeDue (config defaultService) = [3, 1]
   \<and> map rem_id (calculateReminders defaultService utcZone 0 (invoiceDue (10 * MS_PER_DAY)))
       = [''rem_INV-001_before_3'', ''rem_INV-001_before_1'']"
  by (simp add: plan_defs beforeReminder_def string_of_int_def
      string_of_nat.simps digit_char_simps)

text \<open>
  C5, as the code has it: with a non-empty before-due list all of whose offsets
  are strictly below \<open>daysUntilDue\<close>, every before-due offset qualifies. Planning
  returns \<open>slice(0, maxReminders)\<close> of: one \<open>due_soon\<close> event per configured
  before-due offset, in configuration order, followed by the qualifying after-due
  events. Every \<open>due_soon\<close> event returned is scheduled a positive number of
  calendar days after today, which is strictly after today in every time zone
  whose offsets differ by less than a day; and with a positive \<open>maxReminders\<close> the
  list is not empty and starts with a \<open>due_soon\<close> event.
\<close>

theorem calculateReminders_beyond_offsets:
  assumes due: "dueDate invoice = Some due"
    and nonempty: "daysBeforeDue (config this) \<noteq> []"
    and above: "\<forall>d \<in> set (daysBeforeDue (config this)). d < daysUntilDue due today"
  shows "calculateReminders this tz today invoice =
           slice0 (maxReminders (config this))
             (map (beforeReminder invoice tz today (daysUntilDue due today))
                (daysBeforeDue (config this)) @
              map (afterReminder invoice tz due)
                (filter (\<lambda>a. daysUntilDue due today < - a) (daysAfterDue (config this))))
         \<and> (\<forall>r \<in> set (calculateReminders this tz today invoice).
               rem_type r = due_soon \<longrightarrow>
                 (\<exists>k. 0 < k \<and> scheduledFor r = addDays tz today k)
                 \<and> ((\<forall>t l. offsetAtLocal tz l - offsetAtUTC tz t < MS_PER_DAY)
                      \<longrightarrow> today < scheduledFor r))
         \<and> (0 < maxReminders (config this) \<longrightarrow>
               calculateReminders this tz today invoice \<noteq> []
               \<and> rem_type (hd (calculateReminders this tz today invoice)) = due_soon)"
proof -
  let ?dud = "daysUntilDue due today"
  let ?bs = "daysBeforeDue (config this)"
  let ?rs = "map (beforeReminder invoice tz today ?dud) ?bs @
      map (afterReminder invoice tz due)
        (filter (\<lambda>a. ?dud < - a) (daysAfterDue (config this)))"
  have all: "filter (\<lambda>d. d \<le> ?dud) ?bs = ?bs"
    using above by (simp add: filter_id_conv less_imp_le)
  have eq: "calculateReminders this tz today invoice = slice0 (maxReminders (config this)) ?rs"
    by (simp add: calculateReminders_Some [OF due] all)
  have future: "(\<exists>k. 0 < k \<and> scheduledFor r = addDays tz today k)
      \<and> ((\<forall>t l. offsetAtLocal tz l - offsetAtUTC tz t < MS_PER_DAY) \<longrightarrow> today < scheduledFor r)"
    if "r \<in> set ?rs" "rem_type r = due_soon" for r
  proof -
    from that obtain d where d: "d \<in> set ?bs" "r = beforeReminder invoice tz today ?dud d"
      by (auto simp: afterType_not_due_soon)
    from d(1) above have pos: "0 < ?dud - d"
      by simp
    have sched: "scheduledFor r = addDays tz today (?dud - d)"
      using d(2) by simp
    have "today < scheduledFor r"
      if "\<forall>t l. offsetAtLocal tz l - offsetAtUTC tz t < MS_PER_DAY"
      unfolding sched using that pos by (rule addDays_forward)
    with pos sched show ?thesis
      by blast
  qed
  have part2: "\<forall>r \<in> set (calculateReminders this tz today invoice).
      rem_type r = due_soon \<longrightarrow>
        (\<exists>k. 0 < k \<and> scheduledFor r = addDays tz today k)
        \<and> ((\<forall>t l. offsetAtLocal tz l - offsetAtUTC tz t < MS_PER_DAY)
             \<longrightarrow> today < scheduledFor r)"
  proof (intro ballI impI)
    fix r
    assume r: "r \<in> set (calculateReminders this tz today invoice)" and t: "rem_type r = due_soon"
    from r have "r \<in> set ?rs"
      using set_slice0 [of "maxReminders (config this)" ?rs] unfolding eq by blast
    then show "(\<exists>k. 0 < k \<and> scheduledFor r = addDays tz today k)
        \<and> ((\<forall>t l. offsetAtLocal tz l - offsetAtUTC tz t < MS_PER_DAY)
             \<longrightarrow> today < scheduledFor r)"
      using t by (rule future)
  qed
  have part3: "calculateReminders this tz today invoice \<noteq> []
      \<and> rem_type (hd (calculateReminders this tz today invoice)) = due_soon"
    if pos: "0 < maxReminders (config this)"
  proof -
    from nonempty obtain b bs where bs: "?bs = b # bs" by (cases ?bs) auto
    from pos obtain n where n: "nat (maxReminders (config this)) = Suc n"
      by (cases "nat (maxReminders (config this))") auto
    show ?thesis
      using pos n by (simp add: eq slice0_def bs)
  qed
  show ?thesis
    using eq part2 part3 by blast
qed

theorem calculateReminders_beyond_offsets_witness:
  "daysUntilDue (10 * MS_PER_DAY) 0 = 10
   \<and> map (\<lambda>r. (rem_type r, scheduledFor r))
        (calculateReminders defaultService utcZone 0 (invoiceDue (10 * MS_PER_DAY)))
       = [(due_soon, 7 * MS_PER_DAY), (due_soon, 9 * MS_PER_DAY)]"
  using calculateReminders_beyond_offsets [of "invoiceDue (10 * MS_PER_DAY)" "10 * MS_PER_DAY"
      defaultService 0 utcZone]
  by (simp add: invoiceDue_def defaultService_def DEFAULT_CONFIG_def
      daysUntilDue_def MS_PER_DAY_def slice0_def)

subsection \<open>C6: the template of a due-soon event\<close>

text \<open>
  The template is chosen by the test \<open>daysUntilDue \<le> 1\<close>, not by the offset of the
  event: three days before the due date the event of the offset 1 carries the
  standard template.
\<close>

theorem due_soon_template_offset_one_standard:
  "rem_id (calculateReminders defaultService utcZone 0 (invoiceDue (3 * MS_PER_DAY)) ! 1)
     = ''rem_INV-001_before_1''
   \<and> rem_type (calculateReminders defaultService utcZone 0 (invoiceDue (3 * MS_PER_DAY)) ! 1)
     = due_soon
   \<and> template (calculateReminders defaultService utcZone 0 (invoiceDue (3 * MS_PER_DAY)) ! 1)
     = ''payment_reminder''"
  by (simp add: plan_defs beforeReminder_def string_of_int_def
      string_of_nat.simps digit_char_simps)

text \<open>
  C6, as the code has it: every \<open>due_soon\<close> event of a planning pass carries the
  urgent template if and only if \<open>daysUntilDue \<le> 1\<close>, and the standard one
  otherwise; the variant is the same for all events of the pass. The event stems
  from a configured offset \<open>d \<le> daysUntilDue\<close>, so for every \<open>d > 1\<close> it carries the
  standard variant; for \<open>d \<le> 1\<close> it is urgent only if \<open>daysUntilDue \<le> 1\<close> as well.
\<close>

theorem due_soon_template:
  assumes due: "dueDate invoice = Some due"
    and r: "r \<in> set (calculateReminders this tz today invoice)"
    and t: "rem_type r = due_soon"
  shows "(template r = ''payment_reminder_urgent'' \<longleftrightarrow> daysUntilDue due today \<le> 1)
       \<and> (template r = ''payment_reminder'' \<longleftrightarrow> 1 < daysUntilDue due today)
       \<and> (\<exists>d \<in> set (daysBeforeDue (config this)).
             d \<le> daysUntilDue due today
             \<and> r = beforeReminder invoice tz today (daysUntilDue due today) d
             \<and> (1 < d \<longrightarrow> template r = ''payment_reminder''))"
proof -
  let ?dud = "daysUntilDue due today"
  let ?rs = "map (beforeReminder invoice tz today ?dud)
        (filter (\<lambda>d. d \<le> ?dud) (daysBeforeDue (config this))) @
      map (afterReminder invoice tz due)
        (filter (\<lambda>a. ?dud < - a) (daysAfterDue (config this)))"
  from r have "r \<in> set ?rs"
    using set_slice0 [of "maxReminders (config this)" ?rs]
    unfolding calculateReminders_Some [OF due] by blast
  with t obtain d where d: "d \<in> set (daysBeforeDue (config this))" "d \<le> ?dud"
      "r = beforeReminder invoice tz today ?dud d"
    by (auto simp: afterType_not_due_soon)
  from d(3) have tmpl: "template r =
      (if ?dud \<le> 1 then ''payment_reminder_urgent'' else ''payment_reminder'')"
    by simp
  have "1 < d \<longrightarrow> template r = ''payment_reminder''"
    using d(2) tmpl by simp
  with d tmpl show ?thesis
    by auto
qed

theorem due_soon_template_witness:
  "beforeReminder (invoiceDue MS_PER_DAY) utcZone 0 1 1
     \<in> set (calculateReminders defaultService utcZone 0 (invoiceDue MS_PER_DAY))
   \<and> template (beforeReminder (invoiceDue MS_PER_DAY) utcZone 0 1 1) = ''payment_reminder_urgent''
   \<and> daysUntilDue MS_PER_DAY 0 = 1"
  using due_soon_template [of "invoiceDue MS_PER_DAY" "MS_PER_DAY"
      "beforeReminder (invoiceDue MS_PER_DAY) utcZone 0 1 1" defaultService utcZone 0]
  by (simp add: plan_defs)

subsection \<open>C7: the number of events and maxReminders\<close>

text \<open>
  \<open>setConfig\<close> accepts any number for \<open>maxReminders\<close>, and \<open>slice\<close> with a negative end
  drops that many events from the end instead of returning none: with
  \<open>maxReminders = -1\<close>, 45 days after the due date, three of the four planned events
  are returned.
\<close>

theorem calculateReminders_negative_max:
  "maxReminders (config (serviceWithMax (- 1))) = - 1
   \<and> length (calculateReminders (serviceWithMax (- 1)) utcZone (45 * MS_PER_DAY) (invoiceDue 0))
       = 3"
  by (simp add: plan_defs setConfig_def serviceWithMax_def)

text \<open>
  C7, as the code has it: for every configuration with \<open>maxReminders \<ge> 0\<close> the
  number of events returned by one planning pass is at most \<open>maxReminders\<close>, and
  \<open>maxReminders = 0\<close> yields the empty list. In general, for an invoice whose due
  date parses, the pass returns \<open>slice(0, maxReminders)\<close> of the \<open>n\<close> events of the
  qualifying offsets: \<open>min(maxReminders, n)\<close> events for \<open>maxReminders \<ge> 0\<close>, and
  \<open>max(n + maxReminders, 0)\<close> events for a negative \<open>maxReminders\<close>.
\<close>

theorem calculateReminders_length:
  "(0 \<le> maxReminders (config this) \<longrightarrow>
      int (length (calculateReminders this tz today invoice)) \<le> maxReminders (config this))
   \<and> (maxReminders (config this) = 0 \<longrightarrow> calculateReminders this tz today invoice = [])
   \<and> (dueDate invoice = Some due \<longrightarrow>
        length (calculateReminders this tz today invoice) =
          (if maxReminders (config this) < 0
           then nat (int (length (filter (\<lambda>d. d \<le> daysUntilDue due today)
                             (daysBeforeDue (config this))))
                     + int (length (filter (\<lambda>a. daysUntilDue due today < - a)
                             (daysAfterDue (config this))))
                     + maxReminders (config this))
           else min (nat (maxReminders (config this)))
                  (length (filter (\<lambda>d. d \<le> daysUntilDue due today)
                             (daysBeforeDue (config this)))
                   + length (filter (\<lambda>a. daysUntilDue due today < - a)
                             (daysAfterDue (config this))))))"
proof -
  have bound: "int (length (calculateReminders this tz today invoice)) \<le> maxReminders (config this)"
    if "0 \<le> maxReminders (config this)"
    using that
    by (cases "dueDate invoice")
      (simp_all add: calculateReminders_None calculateReminders_Some length_slice0)
  have zero: "calculateReminders this tz today invoice = []"
    if "maxReminders (config this) = 0"
    using bound that by simp
  have exact: "length (calculateReminders this tz today invoice) =
          (if maxReminders (config this) < 0
           then nat (int (length (filter (\<lambda>d. d \<le> daysUntilDue due today)
                             (daysBeforeDue (config this))))
                     + int (length (filter (\<lambda>a. daysUntilDue due today < - a)
                             (daysAfterDue (config this))))
                     + maxReminders (config this))
           else min (nat (maxReminders (config this)))
                  (length (filter (\<lambda>d. d \<le> daysUntilDue due today)
                             (daysBeforeDue (config this)))
                   + length (filter (\<lambda>a. daysUntilDue due today < - a)
                             (daysAfterDue (config this)))))"
    if "dueDate invoice = Some due"
    by (simp add: calculateReminders_Some [OF that] length_slice0)
  show ?thesis
    using bound zero exact by blast
qed

theorem calculateReminders_length_witness:
  "int (length (calculateReminders (serviceWithMax 2) utcZone (45 * MS_PER_DAY) (invoiceDue 0)))
     \<le> 2
   \<and> calculateReminders (serviceWithMax 0) utcZone (45 * MS_PER_DAY) (invoiceDue 0) = []
   \<and> length (calculateReminders (serviceWithMax (- 3)) utcZone (45 * MS_PER_DAY) (invoiceDue 0))
       = 1"
  using calculateReminders_length [of "serviceWithMax 2" utcZone "45 * MS_PER_DAY" "invoiceDue 0" 0]
    calculateReminders_length [of "serviceWithMax 0" utcZone "45 * MS_PER_DAY" "invoiceDue 0" 0]
    calculateReminders_length [of "serviceWithMax (- 3)" utcZone "45 * MS_PER_DAY" "invoiceDue 0" 0]
  by (simp add: serviceWithMax_def setConfig_def defaultService_def DEFAULT_CONFIG_def
      invoiceDue_def daysUntilDue_def MS_PER_DAY_def)

subsection \<open>What a planning pass reads\<close>

text \<open>
  The list returned by \<open>calculateReminders\<close> is determined by the clock reading,
  the time zone, the three planning fields of the configuration and four fields of
  the invoice; the map \<open>reminders\<close>, the channel flags and the other fields of the
  invoice play no part.
\<close>

lemma calculateReminders_reads:
  assumes "daysBeforeDue (config a) = daysBeforeDue (config b)"
    and "daysAfterDue (config a) = daysAfterDue (config b)"
    and "maxReminders (config a) = maxReminders (config b)"
    and "invoiceId i = invoiceId j" and "clientId i = clientId j"
    and "clientEmail i = clientEmail j" and "dueDate i = dueDate j"
  shows "calculateReminders a tz today i = calculateReminders b tz today j"
proof -
  have bef: "beforeReminder i = beforeReminder j"
    using assms by (intro ext) (simp add: beforeReminder_def)
  have aft: "afterReminder i = afterReminder j"
    using assms by (intro ext) (simp add: afterReminder_def)
  show ?thesis
  proof (cases "dueDate i")
    case None
    with assms show ?thesis by (simp add: calculateReminders_None)
  next
    case (Some due)
    with assms have "dueDate j = Some due" by simp
    with Some assms show ?thesis
      by (simp add: calculateReminders_Some bef aft)
  qed
qed

section \<open>The dispatch loop, unfolded\<close>

lemma sendReminder_unfold:
  "sendReminder send this reminder invoice w =
     (let w1 = consoleLog (CollectionSending (rem_type reminder) (invoiceId invoice)) w
      in if enableEmail (config this) then
           (case send (reminderPayload reminder invoice (time w1 (reads w1)))
                   (w1\<lparr>reads := Suc (reads w1)\<rparr>) of
              (Rejected err, w3) \<Rightarrow> (Threw err, reminder, w3)
            | (Resolved resp, w3) \<Rightarrow>
                (Returned True, reminder\<lparr>status := Sent, sentAt := Some (time w3 (reads w3))\<rparr>,
                 w3\<lparr>reads := Suc (reads w3)\<rparr>))
         else (Returned True, reminder\<lparr>status := Sent, sentAt := Some (time w1 (reads w1))\<rparr>,
               w1\<lparr>reads := Suc (reads w1)\<rparr>))"
  by (simp add: sendReminder_def markSent_def newDate_def Let_def
      split: prod.split EmailOutcome.split)

lemma sendReminder_Returned:
  "sendReminder send this reminder invoice w = (Returned ok, r', w') \<Longrightarrow>
     ok \<and> status r' = Sent \<and> sentAt r' \<noteq> None"
  by (auto simp: sendReminder_unfold Let_def split: if_splits prod.splits EmailOutcome.splits)

lemma sendReminder_Threw:
  "sendReminder send this reminder invoice w = (Threw e, r', w') \<Longrightarrow>
     enableEmail (config this) \<and> r' = reminder \<and>
     send (reminderPayload reminder invoice
             (time w (reads w)))
          ((consoleLog (CollectionSending (rem_type reminder) (invoiceId invoice)) w)
             \<lparr>reads := Suc (reads w)\<rparr>) = (Rejected e, w')"
  by (auto simp: sendReminder_unfold Let_def consoleLog_def split: if_splits prod.splits EmailOutcome.splits)

lemma processReminder_unfold:
  "processReminder send this invoice reminder acc w =
     (if status reminder = Pending then
        (if scheduledFor reminder \<le> time w (reads w) then
           (case sendReminder send this reminder invoice (w\<lparr>reads := Suc (reads w)\<rparr>) of
              (Returned ok, r', w2) \<Rightarrow> (Returned (acc\<lparr>sent := sent acc + 1\<rparr>), w2)
            | (Threw err, r', w2) \<Rightarrow>
                (Returned (acc\<lparr>failed := failed acc + 1\<rparr>),
                 consoleLog (CollectionFailed err) w2))
         else (Returned acc, w\<lparr>reads := Suc (reads w)\<rparr>))
      else (Returned acc, w))"
  by (auto simp: processReminder_def tryCatch_def tryBlock_def catchBlock_def newDate_def Let_def
      split: prod.splits Completion.splits dest: sendReminder_Returned)

text \<open>No exception leaves the loops: the only statement that throws is inside the \<open>try\<close>.\<close>

lemma tryCatch_Returned:
  assumes "\<And>err w'. \<exists>v w''. handler err w' = (Returned v, w'')"
  shows "\<exists>v w'. tryCatch body handler w = (Returned v, w')"
proof (cases "body w")
  case (Pair c w1)
  show ?thesis
  proof (cases c)
    case (Returned v)
    with Pair show ?thesis by (simp add: tryCatch_def)
  next
    case (Threw err)
    with Pair assms [of err w1] show ?thesis by (simp add: tryCatch_def)
  qed
qed

lemma processReminder_Returned:
  "\<exists>acc' w'. processReminder send this invoice reminder acc w = (Returned acc', w')"
proof -
  have "\<exists>v w'. tryCatch (tryBlock send this invoice reminder acc) (catchBlock acc) w1
      = (Returned v, w')" for w1
    by (rule tryCatch_Returned) (simp add: catchBlock_def)
  then show ?thesis
    by (simp add: processReminder_def newDate_def Let_def)
qed

lemma processReminders_Returned:
  "\<exists>acc' w'. processReminders send this invoice rs acc w = (Returned acc', w')"
proof (induction rs arbitrary: acc w)
  case Nil
  show ?case by simp
next
  case (Cons r rs)
  obtain acc1 w1 where "processReminder send this invoice r acc w = (Returned acc1, w1)"
    using processReminder_Returned by blast
  then show ?case
    using Cons.IH [of acc1 w1] by simp
qed

lemma processInvoices_Returned:
  "\<exists>acc' w'. processInvoices send this invoices acc w = (Returned acc', w')"
proof (induction invoices arbitrary: acc w)
  case Nil
  show ?case by simp
next
  case (Cons invoice invoices)
  obtain rs w0 where plan: "calculateRemindersNow this invoice w = (rs, w0)"
    by (cases "calculateRemindersNow this invoice w")
  obtain acc1 w1 where "processReminders send this invoice rs acc w0 = (Returned acc1, w1)"
    using processReminders_Returned by blast
  then show ?case
    using Cons.IH [of acc1 w1] plan by simp
qed

lemma processPendingReminders_Returned:
  "\<exists>s w'. processPendingReminders send this invoices w = (Returned s, w')"
  unfolding processPendingReminders_def by (rule processInvoices_Returned)

lemma status_planned:
  assumes "r \<in> set (calculateReminders this tz today invoice)"
  shows "status r = Pending \<and> sentAt r = None"
proof (cases "dueDate invoice")
  case None
  with assms show ?thesis by (simp add: calculateReminders_None)
next
  case (Some due)
  let ?rs = "map (beforeReminder invoice tz today (daysUntilDue due today))
          (filter (\<lambda>d. d \<le> daysUntilDue due today) (daysBeforeDue (config this))) @
        map (afterReminder invoice tz due)
          (filter (\<lambda>a. daysUntilDue due today < - a) (daysAfterDue (config this)))"
  from assms have "r \<in> set (slice0 (maxReminders (config this)) ?rs)"
    by (simp only: calculateReminders_Some [OF Some])
  then have "r \<in> set ?rs"
    using set_slice0 [of "maxReminders (config this)" ?rs] by (rule rev_subsetD)
  then obtain d where "r = beforeReminder invoice tz today (daysUntilDue due today) d
      \<or> r = afterReminder invoice tz due d"
    by auto
  then show ?thesis
    by (auto simp: beforeReminder_def afterReminder_def)
qed

text \<open>The map \<open>reminders\<close> of the service is read by no step of a cycle.\<close>

lemma calculateReminders_history [simp]:
  "calculateReminders (this\<lparr>reminders := m\<rparr>) tz today invoice =
     calculateReminders this tz today invoice"
  by (simp add: calculateReminders_def Let_def split: option.split)

lemma sendReminder_history [simp]:
  "sendReminder send (this\<lparr>reminders := m\<rparr>) reminder invoice w =
     sendReminder send this reminder invoice w"
  by (simp add: sendReminder_def)

lemma processReminder_history [simp]:
  "processReminder send (this\<lparr>reminders := m\<rparr>) invoice reminder acc w =
     processReminder send this invoice reminder acc w"
  by (simp add: processReminder_unfold)

lemma processReminders_history [simp]:
  "processReminders send (this\<lparr>reminders := m\<rparr>) invoice rs acc w =
     processReminders send this invoice rs acc w"
  by (induction rs arbitrary: acc w) (simp_all split: prod.split Completion.split)

lemma processInvoices_history [simp]:
  "processInvoices send (this\<lparr>reminders := m\<rparr>) invoices acc w =
     processInvoices send this invoices acc w"
  by (induction invoices arbitrary: acc w)
    (simp_all add: calculateRemindersNow_def split: prod.split Completion.split)

lemma processPendingReminders_history:
  "processPendingReminders send (this\<lparr>reminders := m\<rparr>) invoices w =
     processPendingReminders send this invoices w"
  by (simp add: processPendingReminders_def)

lemma runCycles_history:
  "runCycles send (this\<lparr>reminders := m\<rparr>) invoices n w = runCycles send this invoices n w"
  by (induction n arbitrary: w) (simp_all add: processPendingReminders_history)

text \<open>The tallies only ever grow by what a step adds to them.\<close>

lemma processReminder_acc:
  "processReminder send this invoice r acc w =
     (case processReminder send this invoice r \<lparr>sent = 0, failed = 0\<rparr> w of
        (Returned d, w') \<Rightarrow>
          (Returned \<lparr>sent = sent acc + sent d, failed = failed acc + failed d\<rparr>, w')
      | (Threw err, w') \<Rightarrow> (Threw err, w'))"
  by (simp add: processReminder_unfold split: prod.split Completion.split)

lemma processReminders_acc:
  "processReminders send this invoice rs acc w =
     (case processReminders send this invoice rs \<lparr>sent = 0, failed = 0\<rparr> w of
        (Returned d, w') \<Rightarrow>
          (Returned \<lparr>sent = sent acc + sent d, failed = failed acc + failed d\<rparr>, w')
      | (Threw err, w') \<Rightarrow> (Threw err, w'))"
proof (induction rs arbitrary: acc w)
  case Nil
  show ?case by simp
next
  case (Cons r rs)
  obtain d1 w1 where step:
    "processReminder send this invoice r \<lparr>sent = 0, failed = 0\<rparr> w = (Returned d1, w1)"
    using processReminder_Returned by blast
  obtain d2 w2 where rest:
    "processReminders send this invoice rs \<lparr>sent = 0, failed = 0\<rparr> w1 = (Returned d2, w2)"
    using processReminders_Returned by blast
  have acc_step: "processReminder send this invoice r acc w =
      (Returned \<lparr>sent = sent acc + sent d1, failed = failed acc + failed d1\<rparr>, w1)"
    using processReminder_acc [of send this invoice r acc w] step by simp
  have l: "processReminders send this invoice (r # rs) acc w =
      (Returned \<lparr>sent = sent acc + sent d1 + sent d2,
                  failed = failed acc + failed d1 + failed d2\<rparr>, w2)"
    using Cons.IH [of "\<lparr>sent = sent acc + sent d1, failed = failed acc + failed d1\<rparr>" w1]
    by (simp add: acc_step rest)
  have r: "processReminders send this invoice (r # rs) \<lparr>sent = 0, failed = 0\<rparr> w =
      (Returned \<lparr>sent = sent d1 + sent d2, failed = failed d1 + failed d2\<rparr>, w2)"
    using Cons.IH [of d1 w1] by (simp add: step rest)
  show ?case
    by (simp only: l r) (simp add: add.assoc)
qed

lemma processInvoices_acc:
  "processInvoices send this invoices acc w =
     (case processInvoices send this invoices \<lparr>sent = 0, failed = 0\<rparr> w of
        (Returned d, w') \<Rightarrow>
          (Returned \<lparr>sent = sent acc + sent d, failed = failed acc + failed d\<rparr>, w')
      | (Threw err, w') \<Rightarrow> (Threw err, w'))"
proof (induction invoices arbitrary: acc w)
  case Nil
  show ?case by simp
next
  case (Cons invoice invoices)
  obtain rs w0 where plan: "calculateRemindersNow this invoice w = (rs, w0)"
    by (cases "calculateRemindersNow this invoice w")
  obtain d1 w1 where step:
    "processReminders send this invoice rs \<lparr>sent = 0, failed = 0\<rparr> w0 = (Returned d1, w1)"
    using processReminders_Returned by blast
  obtain d2 w2 where rest:
    "processInvoices send this invoices \<lparr>sent = 0, failed = 0\<rparr> w1 = (Returned d2, w2)"
    using processInvoices_Returned by blast
  have acc_step: "processReminders send this invoice rs acc w0 =
      (Returned \<lparr>sent = sent acc + sent d1, failed = failed acc + failed d1\<rparr>, w1)"
    using processReminders_acc [of send this invoice rs acc w0] step by simp
  have l: "processInvoices send this (invoice # invoices) acc w =
      (Returned \<lparr>sent = sent acc + sent d1 + sent d2,
                  failed = failed acc + failed d1 + failed d2\<rparr>, w2)"
    using Cons.IH [of "\<lparr>sent = sent acc + sent d1, failed = failed acc + failed d1\<rparr>" w1]
    by (simp add: plan acc_step rest)
  have r: "processInvoices send this (invoice # invoices) \<lparr>sent = 0, failed = 0\<rparr> w =
      (Returned \<lparr>sent = sent d1 + sent d2, failed = failed d1 + failed d2\<rparr>, w2)"
    using Cons.IH [of d1 w1] by (simp add: plan step rest)
  show ?case
    by (simp only: l r) (simp add: add.assoc)
qed

lemma processInvoices_append:
  "processInvoices send this (xs @ ys) acc w =
     (case processInvoices send this xs acc w of
        (Returned acc', w') \<Rightarrow> processInvoices send this ys acc' w'
      | (Threw err, w') \<Rightarrow> (Threw err, w'))"
  by (induction xs arbitrary: acc w) (simp_all split: prod.split Completion.split)

text \<open>The mock e-mail service of the repository resolves in every branch.\<close>

lemma sendEmail_resolves: "fst (sendEmail payload w) \<noteq> Rejected err"
  by (simp add: sendEmail_def newDate_def Let_def split: prod.split)

lemma steadySender_sendEmail: "steadySender sendEmail"
  by (simp add: steadySender_def sendEmail_def newDate_def consoleLog_def sendingLog_def Let_def)

lemma steadySender_rejectingFor: "steadySender (rejectingFor addr)"
  using steadySender_sendEmail by (simp add: steadySender_def rejectingFor_def)

section \<open>A cycle under a clock that stands still\<close>

lemma sendingLog_reads [simp]: "sendingLog (w\<lparr>reads := n\<rparr>) = sendingLog w"
  by (simp add: sendingLog_def)

lemma sendingLog_consoleLog [simp]:
  "sendingLog (consoleLog e w) = sendingLog w @ (if isSending e then [e] else [])"
  by (simp add: sendingLog_def consoleLog_def)

lemma time_consoleLog [simp]: "time (consoleLog e w) = time w"
  by (simp add: consoleLog_def)

lemma zone_consoleLog [simp]: "zone (consoleLog e w) = zone w"
  by (simp add: consoleLog_def)

lemma reads_consoleLog [simp]: "reads (consoleLog e w) = reads w"
  by (simp add: consoleLog_def)

lemma sendReminder_steady:
  assumes steady: "steadySender send"
    and rej: "\<forall>p w. (\<exists>e w'. send p w = (Rejected e, w')) = rejects p"
    and frozen: "\<forall>n. time w n = T"
  shows "\<exists>c r' w'. sendReminder send this r invoice w = (c, r', w')
      \<and> time w' = time w \<and> zone w' = zone w
      \<and> sendingLog w' = sendingLog w @ [CollectionSending (rem_type r) (invoiceId invoice)]
      \<and> ((\<exists>e. c = Threw e) \<longleftrightarrow>
           enableEmail (config this) \<and> rejects (reminderPayload r invoice T))"
proof (cases "enableEmail (config this)")
  case False
  then show ?thesis
    by (simp add: sendReminder_unfold Let_def)
next
  case True
  let ?w1 = "consoleLog (CollectionSending (rem_type r) (invoiceId invoice)) w"
  let ?w2 = "?w1\<lparr>reads := Suc (reads ?w1)\<rparr>"
  let ?p = "reminderPayload r invoice T"
  have now: "time ?w1 (reads ?w1) = T"
    using frozen by simp
  obtain out w3 where s: "send ?p ?w2 = (out, w3)"
    by (cases "send ?p ?w2")
  from steady have keep: "time w3 = time ?w2" "zone w3 = zone ?w2"
      "sendingLog w3 = sendingLog ?w2"
    using s unfolding steadySender_def by (metis snd_conv)+
  show ?thesis
  proof (cases out)
    case (Resolved resp)
    have "\<not> rejects ?p"
    proof
      assume "rejects ?p"
      with rej obtain e w' where "send ?p ?w2 = (Rejected e, w')"
        by blast
      with s Resolved show False by simp
    qed
    with True s Resolved keep now show ?thesis
      by (simp add: sendReminder_unfold Let_def)
  next
    case (Rejected e)
    with s rej have "rejects ?p"
      by blast
    with True s Rejected keep now show ?thesis
      by (simp add: sendReminder_unfold Let_def)
  qed
qed

lemma processReminder_frozen:
  assumes steady: "steadySender send"
    and rej: "\<forall>p w. (\<exists>e w'. send p w = (Rejected e, w')) = rejects p"
    and frozen: "\<forall>n. time w n = T"
    and pend: "status r = Pending"
  shows "\<exists>acc' w'. processReminder send this invoice r acc w = (Returned acc', w')
      \<and> time w' = time w \<and> zone w' = zone w
      \<and> sendingLog w' = sendingLog w @
           (if scheduledFor r \<le> T then [CollectionSending (rem_type r) (invoiceId invoice)] else [])
      \<and> failed acc' = failed acc +
           (if scheduledFor r \<le> T \<and> enableEmail (config this)
               \<and> rejects (reminderPayload r invoice T) then 1 else 0)
      \<and> sent acc' + failed acc' = sent acc + failed acc + (if scheduledFor r \<le> T then 1 else 0)"
proof (cases "scheduledFor r \<le> T")
  case False
  with pend frozen show ?thesis
    by (simp add: processReminder_unfold)
next
  case True
  let ?w1 = "w\<lparr>reads := Suc (reads w)\<rparr>"
  have frozen1: "\<forall>n. time ?w1 n = T"
    using frozen by simp
  from sendReminder_steady [OF steady rej frozen1, of this r invoice]
  obtain c r' w' where s: "sendReminder send this r invoice ?w1 = (c, r', w')"
    and keep: "time w' = time ?w1" "zone w' = zone ?w1"
    and log: "sendingLog w' = sendingLog ?w1 @ [CollectionSending (rem_type r) (invoiceId invoice)]"
    and thr: "(\<exists>e. c = Threw e) \<longleftrightarrow>
           enableEmail (config this) \<and> rejects (reminderPayload r invoice T)"
    by blast
  show ?thesis
  proof (cases c)
    case (Returned ok)
    with thr have "\<not> (enableEmail (config this) \<and> rejects (reminderPayload r invoice T))"
      by simp
    with True pend frozen s Returned keep log show ?thesis
      by (simp add: processReminder_unfold)
  next
    case (Threw e)
    with thr have "enableEmail (config this) \<and> rejects (reminderPayload r invoice T)"
      by blast
    with True pend frozen s Threw keep log show ?thesis
      by (simp add: processReminder_unfold)
  qed
qed

lemma processReminders_frozen:
  assumes steady: "steadySender send"
    and rej: "\<forall>p w. (\<exists>e w'. send p w = (Rejected e, w')) = rejects p"
    and frozen: "\<forall>n. time w n = T"
    and pend: "\<forall>r \<in> set rs. status r = Pending"
  shows "\<exists>acc' w'. processReminders send this invoice rs acc w = (Returned acc', w')
      \<and> time w' = time w \<and> zone w' = zone w
      \<and> sendingLog w' = sendingLog w @
           map (\<lambda>r. CollectionSending (rem_type r) (invoiceId invoice))
             (filter (\<lambda>r. scheduledFor r \<le> T) rs)
      \<and> failed acc' = failed acc +
           length (filter (\<lambda>r. enableEmail (config this) \<and> rejects (reminderPayload r invoice T))
             (filter (\<lambda>r. scheduledFor r \<le> T) rs))
      \<and> sent acc' + failed acc' =
           sent acc + failed acc + length (filter (\<lambda>r. scheduledFor r \<le> T) rs)"
  using frozen pend
proof (induction rs arbitrary: acc w)
  case Nil
  show ?case by simp
next
  case (Cons r rs)
  from Cons.prems have pr: "status r = Pending" and prs: "\<forall>r \<in> set rs. status r = Pending"
    by simp_all
  from processReminder_frozen [OF steady rej Cons.prems(1) pr, of this invoice acc]
  obtain acc1 w1 where step: "processReminder send this invoice r acc w = (Returned acc1, w1)"
    and keep1: "time w1 = time w" "zone w1 = zone w"
    and log1: "sendingLog w1 = sendingLog w @
           (if scheduledFor r \<le> T then [CollectionSending (rem_type r) (invoiceId invoice)] else [])"
    and f1: "failed acc1 = failed acc +
           (if scheduledFor r \<le> T \<and> enableEmail (config this)
               \<and> rejects (reminderPayload r invoice T) then 1 else 0)"
    and t1: "sent acc1 + failed acc1 = sent acc + failed acc + (if scheduledFor r \<le> T then 1 else 0)"
    by blast
  have frozen1: "\<forall>n. time w1 n = T"
    using Cons.prems(1) keep1 by simp
  from Cons.IH [OF frozen1 prs, of acc1]
  obtain acc2 w2 where rest: "processReminders send this invoice rs acc1 w1 = (Returned acc2, w2)"
    and keep2: "time w2 = time w1" "zone w2 = zone w1"
    and log2: "sendingLog w2 = sendingLog w1 @
           map (\<lambda>r. CollectionSending (rem_type r) (invoiceId invoice))
             (filter (\<lambda>r. scheduledFor r \<le> T) rs)"
    and f2: "failed acc2 = failed acc1 +
           length (filter (\<lambda>r. enableEmail (config this) \<and> rejects (reminderPayload r invoice T))
             (filter (\<lambda>r. scheduledFor r \<le> T) rs))"
    and t2: "sent acc2 + failed acc2 =
           sent acc1 + failed acc1 + length (filter (\<lambda>r. scheduledFor r \<le> T) rs)"
    by blast
  have res: "processReminders send this invoice (r # rs) acc w = (Returned acc2, w2)"
    by (simp add: step rest)
  have k: "time w2 = time w \<and> zone w2 = zone w"
    using keep1 keep2 by simp
  have lg: "sendingLog w2 = sendingLog w @
           map (\<lambda>r. CollectionSending (rem_type r) (invoiceId invoice))
             (filter (\<lambda>r. scheduledFor r \<le> T) (r # rs))"
    using log1 log2 by simp
  have f: "failed acc2 = failed acc +
           length (filter (\<lambda>r. enableEmail (config this) \<and> rejects (reminderPayload r invoice T))
             (filter (\<lambda>r. scheduledFor r \<le> T) (r # rs)))"
    using f1 f2 by simp
  have t: "sent acc2 + failed acc2 =
           sent acc + failed acc + length (filter (\<lambda>r. scheduledFor r \<le> T) (r # rs))"
    using t1 t2 by simp
  show ?case
    using res k lg f t by blast
qed

lemma processInvoices_frozen:
  assumes steady: "steadySender send"
    and rej: "\<forall>p w. (\<exists>e w'. send p w = (Rejected e, w')) = rejects p"
    and frozen: "\<forall>n. time w n = T"
  shows "\<exists>acc' w'. processInvoices send this invoices acc w = (Returned acc', w')
      \<and> time w' = time w \<and> zone w' = zone w
      \<and> sendingLog w' = sendingLog w @ dispatchLines this (zone w) T invoices
      \<and> failed acc' = failed acc +
           sum_list (map (\<lambda>invoice. length (rejectedDue this rejects (zone w) T invoice)) invoices)
      \<and> sent acc' + failed acc' =
           sent acc + failed acc + length (dispatchLines this (zone w) T invoices)"
  using frozen
proof (induction invoices arbitrary: acc w)
  case Nil
  show ?case by (simp add: dispatchLines_def)
next
  case (Cons invoice invoices)
  let ?w0 = "w\<lparr>reads := Suc (reads w)\<rparr>"
  let ?rs = "calculateReminders this (zone w) T invoice"
  have plan: "calculateRemindersNow this invoice w = (?rs, ?w0)"
    using Cons.prems by (simp add: calculateRemindersNow_def newDate_def)
  have frozen0: "\<forall>n. time ?w0 n = T"
    using Cons.prems by simp
  have pend: "\<forall>r \<in> set ?rs. status r = Pending"
    using status_planned by blast
  from processReminders_frozen [OF steady rej frozen0 pend, of this invoice acc]
  obtain acc1 w1 where step: "processReminders send this invoice ?rs acc ?w0 = (Returned acc1, w1)"
    and keep1: "time w1 = time ?w0" "zone w1 = zone ?w0"
    and log1: "sendingLog w1 = sendingLog ?w0 @
           map (\<lambda>r. CollectionSending (rem_type r) (invoiceId invoice))
             (dueReminders this (zone w) T invoice)"
    and f1: "failed acc1 = failed acc + length (rejectedDue this rejects (zone w) T invoice)"
    and t1: "sent acc1 + failed acc1 =
           sent acc + failed acc + length (dueReminders this (zone w) T invoice)"
    unfolding dueReminders_def rejectedDue_def by blast
  have frozen1: "\<forall>n. time w1 n = T"
    using Cons.prems keep1 by simp
  have z1: "zone w1 = zone w"
    using keep1 by simp
  from Cons.IH [OF frozen1, of acc1]
  obtain acc2 w2 where rest: "processInvoices send this invoices acc1 w1 = (Returned acc2, w2)"
    and keep2: "time w2 = time w1" "zone w2 = zone w1"
    and log2: "sendingLog w2 = sendingLog w1 @ dispatchLines this (zone w) T invoices"
    and f2: "failed acc2 = failed acc1 +
           sum_list (map (\<lambda>invoice. length (rejectedDue this rejects (zone w) T invoice)) invoices)"
    and t2: "sent acc2 + failed acc2 =
           sent acc1 + failed acc1 + length (dispatchLines this (zone w) T invoices)"
    unfolding z1 by blast
  have res: "processInvoices send this (invoice # invoices) acc w = (Returned acc2, w2)"
    by (simp add: plan step rest)
  have k: "time w2 = time w \<and> zone w2 = zone w"
    using keep1 keep2 by simp
  have lg: "sendingLog w2 = sendingLog w @ dispatchLines this (zone w) T (invoice # invoices)"
    using log1 log2 by (simp add: dispatchLines_def)
  have f: "failed acc2 = failed acc +
           sum_list (map (\<lambda>invoice. length (rejectedDue this rejects (zone w) T invoice))
             (invoice # invoices))"
    using f1 f2 by simp
  have t: "sent acc2 + failed acc2 =
           sent acc + failed acc + length (dispatchLines this (zone w) T (invoice # invoices))"
    using t1 t2 by (simp add: dispatchLines_def)
  show ?case
    using res k lg f t by blast
qed

lemma processPendingReminders_frozen:
  assumes steady: "steadySender send"
    and rej: "\<forall>p w. (\<exists>e w'. send p w = (Rejected e, w')) = rejects p"
    and frozen: "\<forall>n. time w n = T"
  shows "\<exists>s w'. processPendingReminders send this invoices w = (Returned s, w')
      \<and> time w' = time w \<and> zone w' = zone w
      \<and> sendingLog w' = sendingLog w @ dispatchLines this (zone w) T invoices
      \<and> failed s =
           sum_list (map (\<lambda>invoice. length (rejectedDue this rejects (zone w) T invoice)) invoices)
      \<and> sent s + failed s = length (dispatchLines this (zone w) T invoices)"
  using processInvoices_frozen [OF steady rej frozen, of this invoices "\<lparr>sent = 0, failed = 0\<rparr>"]
  by (simp add: processPendingReminders_def)

lemma runCycles_frozen:
  assumes steady: "steadySender send"
    and rej: "\<forall>p w. (\<exists>e w'. send p w = (Rejected e, w')) = rejects p"
    and frozen: "\<forall>n. time w n = T"
  shows "\<exists>w'. runCycles send this invoices n w =
        (replicate n (Returned
           \<lparr>sent = length (dispatchLines this (zone w) T invoices)
                    - sum_list (map (\<lambda>invoice. length (rejectedDue this rejects (zone w) T invoice))
                        invoices),
            failed = sum_list (map (\<lambda>invoice. length (rejectedDue this rejects (zone w) T invoice))
                        invoices)\<rparr>), w')
      \<and> time w' = time w \<and> zone w' = zone w
      \<and> sendingLog w' =
           sendingLog w @ concat (replicate n (dispatchLines this (zone w) T invoices))"
  using frozen
proof (induction n arbitrary: w)
  case 0
  show ?case by simp
next
  case (Suc n)
  let ?N = "length (dispatchLines this (zone w) T invoices)"
  let ?F = "sum_list (map (\<lambda>invoice. length (rejectedDue this rejects (zone w) T invoice)) invoices)"
  from processPendingReminders_frozen [OF steady rej Suc.prems, of this invoices]
  obtain s w1 where cyc: "processPendingReminders send this invoices w = (Returned s, w1)"
    and keep1: "time w1 = time w" "zone w1 = zone w"
    and log1: "sendingLog w1 = sendingLog w @ dispatchLines this (zone w) T invoices"
    and f: "failed s = ?F" and t: "sent s + failed s = ?N"
    by blast
  have s: "s = \<lparr>sent = ?N - ?F, failed = ?F\<rparr>"
    using f t by (cases s) simp
  have frozen1: "\<forall>n. time w1 n = T"
    using Suc.prems keep1 by simp
  from Suc.IH [OF frozen1]
  obtain w2 where rest: "runCycles send this invoices n w1 =
        (replicate n (Returned \<lparr>sent = ?N - ?F, failed = ?F\<rparr>), w2)"
    and keep2: "time w2 = time w1" "zone w2 = zone w1"
    and log2: "sendingLog w2 =
           sendingLog w1 @ concat (replicate n (dispatchLines this (zone w) T invoices))"
    unfolding keep1 by blast
  have res: "runCycles send this invoices (Suc n) w =
        (replicate (Suc n) (Returned \<lparr>sent = ?N - ?F, failed = ?F\<rparr>), w2)"
    by (simp add: cyc rest s)
  have k: "time w2 = time w \<and> zone w2 = zone w"
    using keep1 keep2 by simp
  have lg: "sendingLog w2 =
      sendingLog w @ concat (replicate (Suc n) (dispatchLines this (zone w) T invoices))"
    using log1 log2 by simp
  show ?case
    using res k lg by blast
qed

lemma processReminder_sendEmail_failed:
  assumes "processReminder sendEmail this invoice reminder acc w = (Returned acc', w')"
  shows "failed acc' = failed acc"
proof (rule ccontr)
  assume "failed acc' \<noteq> failed acc"
  with assms obtain err r' w2 where
    "sendReminder sendEmail this reminder invoice (w\<lparr>reads := Suc (reads w)\<rparr>) = (Threw err, r', w2)"
    by (auto simp: processReminder_unfold split: if_splits prod.splits Completion.splits)
  from sendReminder_Threw [OF this] obtain p w3 where "sendEmail p w3 = (Rejected err, w2)"
    by blast
  then show False
    using sendEmail_resolves [of p w3 err] by simp
qed

lemma processReminders_sendEmail_failed:
  "processReminders sendEmail this invoice rs acc w = (Returned acc', w') \<Longrightarrow>
     failed acc' = failed acc"
proof (induction rs arbitrary: acc w)
  case Nil
  then show ?case by simp
next
  case (Cons r rs)
  obtain acc1 w1 where step: "processReminder sendEmail this invoice r acc w = (Returned acc1, w1)"
    using processReminder_Returned by blast
  then have "failed acc1 = failed acc"
    by (rule processReminder_sendEmail_failed)
  moreover from Cons.prems step have "processReminders sendEmail this invoice rs acc1 w1 = (Returned acc', w')"
    by simp
  then have "failed acc' = failed acc1"
    by (rule Cons.IH)
  ultimately show ?case by simp
qed

lemma processInvoices_sendEmail_failed:
  "processInvoices sendEmail this invoices acc w = (Returned acc', w') \<Longrightarrow>
     failed acc' = failed acc"
proof (induction invoices arbitrary: acc w)
  case Nil
  then show ?case by simp
next
  case (Cons invoice invoices)
  obtain rs w0 where plan: "calculateRemindersNow this invoice w = (rs, w0)"
    by (cases "calculateRemindersNow this invoice w")
  obtain acc1 w1 where step: "processReminders sendEmail this invoice rs acc w0 = (Returned acc1, w1)"
    using processReminders_Returned by blast
  then have "failed acc1 = failed acc"
    by (rule processReminders_sendEmail_failed)
  moreover from Cons.prems plan step
  have "processInvoices sendEmail this invoices acc1 w1 = (Returned acc', w')"
    by simp
  then have "failed acc' = failed acc1"
    by (rule Cons.IH)
  ultimately show ?case by simp
qed

lemma processPendingReminders_sendEmail_failed:
  "\<exists>s w'. processPendingReminders sendEmail this invoices w = (Returned s, w') \<and> failed s = 0"
proof -
  obtain s w' where r: "processPendingReminders sendEmail this invoices w = (Returned s, w')"
    using processPendingReminders_Returned by blast
  then have "failed s = 0"
    using processInvoices_sendEmail_failed [of this invoices "\<lparr>sent = 0, failed = 0\<rparr>" w s w']
    by (simp add: processPendingReminders_def)
  with r show ?thesis by blast
qed

text \<open>Definitions unfolded when the model is evaluated on a concrete input.\<close>

lemmas eval_defs =
  processPendingReminders_def calculateRemindersNow_def calculateReminders_Some
  processReminder_unfold sendReminder_unfold reminderPayload_def sendEmail_def
  EMAIL_TEMPLATES_def newDate_def consoleLog_def worldAt_def frozenWorld_def invoiceDue_def
  defaultService_def DEFAULT_CONFIG_def daysUntilDue_def MS_PER_DAY_def slice0_def
  afterType_def Let_def

section \<open>Claims about dispatch\<close>

subsection \<open>C1: dispatches of one (invoice, tier) pair across cycles\<close>

text \<open>
  No method keeps a record of a dispatch: \<open>sendReminder\<close> marks the reminder object
  it was given, which \<open>processPendingReminders\<close> then drops, and every cycle plans
  afresh. Two cycles over the same overdue invoice, with the mock e-mail service
  and a running clock, each report two reminders sent, and the console shows the
  \<open>overdue_1\<close> and the \<open>overdue_7\<close> reminder of that invoice dispatched in both.
\<close>

theorem processPendingReminders_dispatches_twice:
  "fst (runCycles sendEmail defaultService [invoiceDue 0] 2 (worldAt (10 * MS_PER_DAY)))
     = [Returned \<lparr>sent = 2, failed = 0\<rparr>, Returned \<lparr>sent = 2, failed = 0\<rparr>]
   \<and> console (snd (runCycles sendEmail defaultService [invoiceDue 0] 2
         (worldAt (10 * MS_PER_DAY)))) =
       [CollectionSending overdue_1 ''INV-001'',
        EmailSimulated ''ana@example.com'' ''invoice_overdue'',
        CollectionSending overdue_7 ''INV-001'',
        EmailSimulated ''ana@example.com'' ''invoice_overdue'',
        CollectionSending overdue_1 ''INV-001'',
        EmailSimulated ''ana@example.com'' ''invoice_overdue'',
        CollectionSending overdue_7 ''INV-001'',
        EmailSimulated ''ana@example.com'' ''invoice_overdue'']"
  by (simp add: eval_defs numeral_2_eq_2 utcZone_def addDays_def UTC_def LocalTime_def)

text \<open>
  C1, as the code has it: every event returned by planning has status pending and
  no \<open>sentAt\<close>, and no step of a cycle reads the service's map \<open>reminders\<close>. For a
  clock that reads the same instant \<open>T\<close> throughout and a steady e-mail service
  whose rejections depend on the payload alone, every cycle over a batch
  dispatches each planned event of each supplied invoice whose scheduled time is at
  most \<open>T\<close> exactly once, in the order of the batch and of the plan, whatever earlier
  cycles did: \<open>n\<close> cycles return \<open>n\<close> times the same summary and write \<open>n\<close> times the
  same dispatch lines, so an event whose dispatch succeeded in one cycle is
  dispatched again, and counted as sent again, in each later one.
\<close>

theorem every_cycle_dispatches_again:
  assumes steady: "steadySender send"
    and rej: "\<forall>p w. (\<exists>e w'. send p w = (Rejected e, w')) = rejects p"
    and frozen: "\<forall>n. time w n = T"
  shows "(\<forall>invoice \<in> set invoices.
            \<forall>r \<in> set (calculateReminders this (zone w) T invoice).
              status r = Pending \<and> sentAt r = None)
       \<and> runCycles send (this\<lparr>reminders := history\<rparr>) invoices n w
            = runCycles send this invoices n w
       \<and> fst (runCycles send this invoices n w) =
           replicate n (Returned
             \<lparr>sent = length (dispatchLines this (zone w) T invoices)
                      - sum_list (map (\<lambda>invoice.
                            length (rejectedDue this rejects (zone w) T invoice)) invoices),
              failed = sum_list (map (\<lambda>invoice.
                            length (rejectedDue this rejects (zone w) T invoice)) invoices)\<rparr>)
       \<and> sendingLog (snd (runCycles send this invoices n w)) =
           sendingLog w @ concat (replicate n (dispatchLines this (zone w) T invoices))"
proof -
  from runCycles_frozen [OF steady rej frozen, of this invoices n]
  obtain w' where run: "runCycles send this invoices n w =
        (replicate n (Returned
           \<lparr>sent = length (dispatchLines this (zone w) T invoices)
                    - sum_list (map (\<lambda>invoice. length (rejectedDue this rejects (zone w) T invoice))
                        invoices),
            failed = sum_list (map (\<lambda>invoice. length (rejectedDue this rejects (zone w) T invoice))
                        invoices)\<rparr>), w')"
    and log: "sendingLog w' =
           sendingLog w @ concat (replicate n (dispatchLines this (zone w) T invoices))"
    by blast
  have pend: "\<forall>invoice \<in> set invoices.
            \<forall>r \<in> set (calculateReminders this (zone w) T invoice).
              status r = Pending \<and> sentAt r = None"
    using status_planned by blast
  show ?thesis
    using pend run log by (simp add: runCycles_history)
qed

theorem every_cycle_dispatches_again_witness:
  "fst (runCycles sendEmail
          (defaultService\<lparr>reminders :=
             [''INV-001'' \<mapsto> [(afterReminder (invoiceDue 0) utcZone 0 7)\<lparr>status := Sent\<rparr>]]\<rparr>)
          [invoiceDue 0] 3 (frozenWorld (10 * MS_PER_DAY)))
     = [Returned \<lparr>sent = 2, failed = 0\<rparr>, Returned \<lparr>sent = 2, failed = 0\<rparr>,
        Returned \<lparr>sent = 2, failed = 0\<rparr>]
   \<and> sendingLog (snd (runCycles sendEmail defaultService [invoiceDue 0] 3
          (frozenWorld (10 * MS_PER_DAY))))
     = [CollectionSending overdue_1 ''INV-001'', CollectionSending overdue_7 ''INV-001'',
        CollectionSending overdue_1 ''INV-001'', CollectionSending overdue_7 ''INV-001'',
        CollectionSending overdue_1 ''INV-001'', CollectionSending overdue_7 ''INV-001'']"
proof -
  have rej: "\<forall>p w. (\<exists>e w'. sendEmail p w = (Rejected e, w')) = (\<lambda>p. False) p"
    using sendEmail_resolves by (metis fst_conv)
  have frozen: "\<forall>n. time (frozenWorld (10 * MS_PER_DAY)) n = 10 * MS_PER_DAY"
    by (simp add: frozenWorld_def)
  have lines: "dispatchLines defaultService utcZone (10 * MS_PER_DAY) [invoiceDue 0] =
      [CollectionSending overdue_1 ''INV-001'', CollectionSending overdue_7 ''INV-001'']"
    by (simp add: dispatchLines_def dueReminders_def calculateReminders_Some invoiceDue_def
        defaultService_def DEFAULT_CONFIG_def daysUntilDue_def MS_PER_DAY_def slice0_def
        afterType_def)
  have zone: "zone (frozenWorld (10 * MS_PER_DAY)) = utcZone"
    and log0: "sendingLog (frozenWorld (10 * MS_PER_DAY)) = []"
    by (simp_all add: frozenWorld_def sendingLog_def)
  show ?thesis
    using every_cycle_dispatches_again [OF steadySender_sendEmail rej frozen,
        of "[invoiceDue 0]" defaultService
          "[''INV-001'' \<mapsto> [(afterReminder (invoiceDue 0) utcZone 0 7)\<lparr>status := Sent\<rparr>]]" 3]
    by (simp add: zone log0 lines rejectedDue_def numeral_3_eq_3)
qed

subsection \<open>C9: an error in one dispatch does not stop the cycle\<close>

text \<open>
  C9: for every e-mail service, resolving or rejecting, and every batch:
  \<^item> no exception leaves \<open>processPendingReminders\<close>: it returns a summary;
  \<^item> when the dispatch of a due reminder throws, the error is caught, \<open>failed\<close> is
    incremented, the error is logged, and the inner loop goes on with the
    remaining reminders of the invoice (when it returns, \<open>sent\<close> is incremented
    instead; a reminder that is not pending or not yet due is passed over);
  \<^item> a cycle over a batch is the inner loop over the plan of its first invoice,
    followed by the cycle over the other invoices from the world the first one left
    behind, with the tallies added, whatever was caught on the way; the same holds
    for a batch split in two;
  \<^item> for a clock that reads \<open>T\<close> throughout and a steady service rejecting exactly
    the payloads \<open>rejects\<close>, the cycle writes the dispatch line of every due reminder
    of every invoice, \<open>failed\<close> counts those whose dispatch was rejected and \<open>sent\<close>
    all the others.
\<close>

theorem processPendingReminders_continues_after_error:
  "(\<exists>s w'. processPendingReminders send this invoices w = (Returned s, w'))
   \<and> processReminders send this invoice [] acc w = (Returned acc, w)
   \<and> processReminders send this invoice (reminder # rest) acc w =
       (if status reminder = Pending then
          (if scheduledFor reminder \<le> time w (reads w) then
             (case sendReminder send this reminder invoice (w\<lparr>reads := Suc (reads w)\<rparr>) of
                (Threw err, r', w') \<Rightarrow>
                  processReminders send this invoice rest (acc\<lparr>failed := failed acc + 1\<rparr>)
                    (consoleLog (CollectionFailed err) w')
              | (Returned ok, r', w') \<Rightarrow>
                  processReminders send this invoice rest (acc\<lparr>sent := sent acc + 1\<rparr>) w')
           else processReminders send this invoice rest acc (w\<lparr>reads := Suc (reads w)\<rparr>))
        else processReminders send this invoice rest acc w)
   \<and> processPendingReminders send this [] w = (Returned \<lparr>sent = 0, failed = 0\<rparr>, w)
   \<and> processPendingReminders send this (invoice # others) w =
       (case calculateRemindersNow this invoice w of
          (rs, w1) \<Rightarrow>
            (case processReminders send this invoice rs \<lparr>sent = 0, failed = 0\<rparr> w1 of
               (Returned s1, w2) \<Rightarrow>
                 (case processPendingReminders send this others w2 of
                    (Returned s2, w3) \<Rightarrow>
                      (Returned \<lparr>sent = sent s1 + sent s2, failed = failed s1 + failed s2\<rparr>, w3)
                  | (Threw err, w3) \<Rightarrow> (Threw err, w3))
             | (Threw err, w2) \<Rightarrow> (Threw err, w2)))
   \<and> processPendingReminders send this (xs @ ys) w =
       (case processPendingReminders send this xs w of
          (Returned s1, w1) \<Rightarrow>
            (case processPendingReminders send this ys w1 of
               (Returned s2, w2) \<Rightarrow>
                 (Returned \<lparr>sent = sent s1 + sent s2, failed = failed s1 + failed s2\<rparr>, w2)
             | (Threw err, w2) \<Rightarrow> (Threw err, w2))
        | (Threw err, w1) \<Rightarrow> (Threw err, w1))
   \<and> (steadySender send
        \<and> (\<forall>p w. (\<exists>e w'. send p w = (Rejected e, w')) = rejects p)
        \<and> (\<forall>n. time w n = T) \<longrightarrow>
        (\<exists>s w'. processPendingReminders send this invoices w = (Returned s, w')
           \<and> sendingLog w' = sendingLog w @ dispatchLines this (zone w) T invoices
           \<and> failed s = sum_list (map (\<lambda>invoice.
                 length (rejectedDue this rejects (zone w) T invoice)) invoices)
           \<and> sent s + failed s = length (dispatchLines this (zone w) T invoices)))"
proof -
  have ret: "\<exists>s w'. processPendingReminders send this invoices w = (Returned s, w')"
    by (rule processPendingReminders_Returned)
  have nil: "processReminders send this invoice [] acc w = (Returned acc, w)"
    by simp
  have step: "processReminders send this invoice (reminder # rest) acc w =
       (if status reminder = Pending then
          (if scheduledFor reminder \<le> time w (reads w) then
             (case sendReminder send this reminder invoice (w\<lparr>reads := Suc (reads w)\<rparr>) of
                (Threw err, r', w') \<Rightarrow>
                  processReminders send this invoice rest (acc\<lparr>failed := failed acc + 1\<rparr>)
                    (consoleLog (CollectionFailed err) w')
              | (Returned ok, r', w') \<Rightarrow>
                  processReminders send this invoice rest (acc\<lparr>sent := sent acc + 1\<rparr>) w')
           else processReminders send this invoice rest acc (w\<lparr>reads := Suc (reads w)\<rparr>))
        else processReminders send this invoice rest acc w)"
    by (simp add: processReminder_unfold split: prod.split Completion.split)
  have empty: "processPendingReminders send this [] w = (Returned \<lparr>sent = 0, failed = 0\<rparr>, w)"
    by (simp add: processPendingReminders_def)
  have cycle: "processPendingReminders send this (invoice # others) w =
       (case calculateRemindersNow this invoice w of
          (rs, w1) \<Rightarrow>
            (case processReminders send this invoice rs \<lparr>sent = 0, failed = 0\<rparr> w1 of
               (Returned s1, w2) \<Rightarrow>
                 (case processPendingReminders send this others w2 of
                    (Returned s2, w3) \<Rightarrow>
                      (Returned \<lparr>sent = sent s1 + sent s2, failed = failed s1 + failed s2\<rparr>, w3)
                  | (Threw err, w3) \<Rightarrow> (Threw err, w3))
             | (Threw err, w2) \<Rightarrow> (Threw err, w2)))"
  proof -
    obtain rs w1 where plan: "calculateRemindersNow this invoice w = (rs, w1)"
      by (cases "calculateRemindersNow this invoice w")
    obtain s1 w2 where one:
      "processReminders send this invoice rs \<lparr>sent = 0, failed = 0\<rparr> w1 = (Returned s1, w2)"
      using processReminders_Returned by blast
    obtain s2 w3 where two:
      "processInvoices send this others \<lparr>sent = 0, failed = 0\<rparr> w2 = (Returned s2, w3)"
      using processInvoices_Returned by blast
    have "processInvoices send this others s1 w2 =
        (Returned \<lparr>sent = sent s1 + sent s2, failed = failed s1 + failed s2\<rparr>, w3)"
      using processInvoices_acc [of send this others s1 w2] two by simp
    then show ?thesis
      by (simp add: processPendingReminders_def plan one two)
  qed
  have batch: "processPendingReminders send this (xs @ ys) w =
       (case processPendingReminders send this xs w of
          (Returned s1, w1) \<Rightarrow>
            (case processPendingReminders send this ys w1 of
               (Returned s2, w2) \<Rightarrow>
                 (Returned \<lparr>sent = sent s1 + sent s2, failed = failed s1 + failed s2\<rparr>, w2)
             | (Threw err, w2) \<Rightarrow> (Threw err, w2))
        | (Threw err, w1) \<Rightarrow> (Threw err, w1))"
  proof -
    obtain s1 w1 where one:
      "processInvoices send this xs \<lparr>sent = 0, failed = 0\<rparr> w = (Returned s1, w1)"
      using processInvoices_Returned by blast
    obtain s2 w2 where two:
      "processInvoices send this ys \<lparr>sent = 0, failed = 0\<rparr> w1 = (Returned s2, w2)"
      using processInvoices_Returned by blast
    have "processInvoices send this ys s1 w1 =
        (Returned \<lparr>sent = sent s1 + sent s2, failed = failed s1 + failed s2\<rparr>, w2)"
      using processInvoices_acc [of send this ys s1 w1] two by simp
    then show ?thesis
      by (simp add: processPendingReminders_def processInvoices_append one two)
  qed
  have still: "\<exists>s w'. processPendingReminders send this invoices w = (Returned s, w')
           \<and> sendingLog w' = sendingLog w @ dispatchLines this (zone w) T invoices
           \<and> failed s = sum_list (map (\<lambda>invoice.
                 length (rejectedDue this rejects (zone w) T invoice)) invoices)
           \<and> sent s + failed s = length (dispatchLines this (zone w) T invoices)"
    if h: "steadySender send
        \<and> (\<forall>p w. (\<exists>e w'. send p w = (Rejected e, w')) = rejects p)
        \<and> (\<forall>n. time w n = T)"
  proof -
    from h have steady: "steadySender send"
      and rej: "\<forall>p w. (\<exists>e w'. send p w = (Rejected e, w')) = rejects p"
      and frozen: "\<forall>n. time w n = T"
      by blast+
    from processPendingReminders_frozen [OF steady rej frozen, of this invoices]
    show ?thesis by blast
  qed
  show ?thesis
    apply (intro conjI impI)
          apply (rule ret)
         apply (rule nil)
        apply (rule step)
       apply (rule empty)
      apply (rule cycle)
     apply (rule batch)
    apply (erule still)
    done
qed

lemma rejectingFor_rejects:
  "(\<exists>e w'. rejectingFor addr p w = (Rejected e, w')) = (mail_to p = addr)"
proof (cases "mail_to p = addr")
  case True
  then show ?thesis by (simp add: rejectingFor_def)
next
  case False
  have "\<not> (\<exists>e w'. sendEmail p w = (Rejected e, w'))"
    using sendEmail_resolves [of p w] by (metis fst_conv)
  with False show ?thesis by (simp add: rejectingFor_def)
qed

theorem processPendingReminders_continues_after_error_witness:
  "fst (processPendingReminders (rejectingFor ''ana@example.com'') defaultService
          [invoiceDue 0,
           (invoiceDue 0)\<lparr>invoiceId := ''INV-002'', clientEmail := ''luis@example.com''\<rparr>]
          (frozenWorld (10 * MS_PER_DAY))) = Returned \<lparr>sent = 2, failed = 2\<rparr>
   \<and> sendingLog (snd (processPendingReminders (rejectingFor ''ana@example.com'') defaultService
          [invoiceDue 0,
           (invoiceDue 0)\<lparr>invoiceId := ''INV-002'', clientEmail := ''luis@example.com''\<rparr>]
          (frozenWorld (10 * MS_PER_DAY)))) =
       [CollectionSending overdue_1 ''INV-001'', CollectionSending overdue_7 ''INV-001'',
        CollectionSending overdue_1 ''INV-002'', CollectionSending overdue_7 ''INV-002'']
   \<and> fst (processReminders (rejectingFor ''ana@example.com'') defaultService (invoiceDue 0)
          [afterReminder (invoiceDue 0) utcZone 0 1, afterReminder (invoiceDue 0) utcZone 0 7]
          \<lparr>sent = 0, failed = 0\<rparr> (frozenWorld (10 * MS_PER_DAY)))
       = Returned \<lparr>sent = 0, failed = 2\<rparr>"
proof -
  let ?send = "rejectingFor ''ana@example.com''"
  let ?w = "frozenWorld (10 * MS_PER_DAY)"
  let ?other = "(invoiceDue 0)\<lparr>invoiceId := ''INV-002'', clientEmail := ''luis@example.com''\<rparr>"
  let ?batch = "[invoiceDue 0, ?other]"
  let ?rejects = "\<lambda>p. mail_to p = ''ana@example.com''"
  have steady: "steadySender ?send"
    by (rule steadySender_rejectingFor)
  have rej: "\<forall>p w. (\<exists>e w'. ?send p w = (Rejected e, w')) = ?rejects p"
    using rejectingFor_rejects by blast
  have frozen: "\<forall>n. time ?w n = 10 * MS_PER_DAY"
    by (simp add: frozenWorld_def)
  have zone: "zone ?w = utcZone" and log0: "sendingLog ?w = []"
    by (simp_all add: frozenWorld_def sendingLog_def)
  have due1: "dueReminders defaultService utcZone (10 * MS_PER_DAY) (invoiceDue 0) =
      [afterReminder (invoiceDue 0) utcZone 0 1, afterReminder (invoiceDue 0) utcZone 0 7]"
    by (simp add: dueReminders_def plan_defs)
  have due2: "dueReminders defaultService utcZone (10 * MS_PER_DAY) ?other =
      [afterReminder ?other utcZone 0 1, afterReminder ?other utcZone 0 7]"
    by (simp add: dueReminders_def plan_defs)
  have ids: "invoiceId (invoiceDue 0) = ''INV-001''"
      "clientEmail (invoiceDue 0) = ''ana@example.com''"
    by (simp_all add: invoiceDue_def)
  have on: "enableEmail (config defaultService)"
    by (simp add: defaultService_def DEFAULT_CONFIG_def)
  have lines: "dispatchLines defaultService utcZone (10 * MS_PER_DAY) ?batch =
      [CollectionSending overdue_1 ''INV-001'', CollectionSending overdue_7 ''INV-001'',
       CollectionSending overdue_1 ''INV-002'', CollectionSending overdue_7 ''INV-002'']"
    by (simp add: dispatchLines_def due1 due2 afterType_def ids)
  have rejected: "sum_list (map (\<lambda>invoice.
      length (rejectedDue defaultService ?rejects utcZone (10 * MS_PER_DAY) invoice)) ?batch) = 2"
    by (simp add: rejectedDue_def due1 due2 reminderPayload_def ids on)
  have due: "status (afterReminder (invoiceDue 0) utcZone 0 1) = Pending
      \<and> scheduledFor (afterReminder (invoiceDue 0) utcZone 0 1) \<le> time ?w (reads ?w)"
    by (simp add: frozenWorld_def MS_PER_DAY_def)
  note all = processPendingReminders_continues_after_error
      [where send = ?send and this = defaultService and invoices = ?batch and w = ?w
        and reminder = "afterReminder (invoiceDue 0) utcZone 0 1" and invoice = "invoiceDue 0"
        and rest = "[afterReminder (invoiceDue 0) utcZone 0 7]"
        and acc = "\<lparr>sent = 0, failed = 0\<rparr>" and others = "[]" and xs = "[]" and ys = "[]"
        and rejects = ?rejects and T = "10 * MS_PER_DAY"]
  from all [THEN conjunct2, THEN conjunct2, THEN conjunct2, THEN conjunct2, THEN conjunct2,
      THEN conjunct2] steady rej frozen
  obtain s w' where run: "processPendingReminders ?send defaultService ?batch ?w = (Returned s, w')"
    and log: "sendingLog w' = sendingLog ?w @ dispatchLines defaultService (zone ?w)
        (10 * MS_PER_DAY) ?batch"
    and f: "failed s = sum_list (map (\<lambda>invoice.
        length (rejectedDue defaultService ?rejects (zone ?w) (10 * MS_PER_DAY) invoice)) ?batch)"
    and t: "sent s + failed s = length (dispatchLines defaultService (zone ?w)
        (10 * MS_PER_DAY) ?batch)"
    by blast
  have s: "s = \<lparr>sent = 2, failed = 2\<rparr>"
    using f t unfolding zone lines rejected by (cases s) simp
  have one: "fst (processPendingReminders ?send defaultService ?batch ?w)
      = Returned \<lparr>sent = 2, failed = 2\<rparr>"
    by (simp add: run s)
  have two: "sendingLog (snd (processPendingReminders ?send defaultService ?batch ?w)) =
      [CollectionSending overdue_1 ''INV-001'', CollectionSending overdue_7 ''INV-001'',
       CollectionSending overdue_1 ''INV-002'', CollectionSending overdue_7 ''INV-002'']"
    using log unfolding zone lines log0 by (simp add: run)
  have three: "fst (processReminders ?send defaultService (invoiceDue 0)
          [afterReminder (invoiceDue 0) utcZone 0 1, afterReminder (invoiceDue 0) utcZone 0 7]
          \<lparr>sent = 0, failed = 0\<rparr> ?w) = Returned \<lparr>sent = 0, failed = 2\<rparr>"
    using all [THEN conjunct2, THEN conjunct2, THEN conjunct1] due
    by (simp add: eval_defs rejectingFor_def)
  show ?thesis
    using one two three by (intro conjI)
qed

subsection \<open>C10: sendReminder reports success unless sendEmail throws\<close>

text \<open>
  C10: with the e-mail channel disabled, \<open>sendReminder\<close> returns true and leaves the
  reminder with status sent and \<open>sentAt\<close> set, without calling the e-mail service.
  With the channel enabled it does the same whenever \<open>sendEmail\<close> resolves, with any
  response (\<open>success: false\<close> included), and throws, leaving the reminder unchanged,
  exactly when \<open>sendEmail\<close> rejects. The tally \<open>failed\<close> changes in a step of the
  loop only if the channel is enabled and \<open>sendEmail\<close> rejected. With the mock
  service of the repository, which never rejects, every cycle returns a summary
  whose \<open>failed\<close> is 0.
\<close>

theorem sendReminder_returns_true:
  "(\<not> enableEmail (config this) \<longrightarrow>
      sendReminder send this reminder invoice w =
        (Returned True, reminder\<lparr>status := Sent, sentAt := Some (time w (reads w))\<rparr>,
         (consoleLog (CollectionSending (rem_type reminder) (invoiceId invoice)) w)
           \<lparr>reads := Suc (reads w)\<rparr>))
   \<and> (enableEmail (config this) \<longrightarrow>
      (case send (reminderPayload reminder invoice (time w (reads w)))
              ((consoleLog (CollectionSending (rem_type reminder) (invoiceId invoice)) w)
                 \<lparr>reads := Suc (reads w)\<rparr>) of
         (Resolved resp, w3) \<Rightarrow>
           sendReminder send this reminder invoice w =
             (Returned True, reminder\<lparr>status := Sent, sentAt := Some (time w3 (reads w3))\<rparr>,
              w3\<lparr>reads := Suc (reads w3)\<rparr>)
       | (Rejected err, w3) \<Rightarrow>
           sendReminder send this reminder invoice w = (Threw err, reminder, w3)))
   \<and> (\<exists>acc' w'. processReminder send this invoice reminder acc w = (Returned acc', w')
         \<and> (failed acc' \<noteq> failed acc \<longrightarrow>
              enableEmail (config this) \<and>
              (\<exists>err w3. send (reminderPayload reminder invoice (time w (Suc (reads w))))
                  ((consoleLog (CollectionSending (rem_type reminder) (invoiceId invoice)) w)
                     \<lparr>reads := Suc (Suc (reads w))\<rparr>) = (Rejected err, w3))))
   \<and> (\<exists>s w'. processPendingReminders sendEmail this invoices w0 = (Returned s, w')
         \<and> failed s = 0)"
proof -
  have off: "sendReminder send this reminder invoice w =
        (Returned True, reminder\<lparr>status := Sent, sentAt := Some (time w (reads w))\<rparr>,
         (consoleLog (CollectionSending (rem_type reminder) (invoiceId invoice)) w)
           \<lparr>reads := Suc (reads w)\<rparr>)"
    if "\<not> enableEmail (config this)"
    using that by (simp add: sendReminder_unfold Let_def consoleLog_def)
  have on: "(case send (reminderPayload reminder invoice (time w (reads w)))
              ((consoleLog (CollectionSending (rem_type reminder) (invoiceId invoice)) w)
                 \<lparr>reads := Suc (reads w)\<rparr>) of
         (Resolved resp, w3) \<Rightarrow>
           sendReminder send this reminder invoice w =
             (Returned True, reminder\<lparr>status := Sent, sentAt := Some (time w3 (reads w3))\<rparr>,
              w3\<lparr>reads := Suc (reads w3)\<rparr>)
       | (Rejected err, w3) \<Rightarrow>
           sendReminder send this reminder invoice w = (Threw err, reminder, w3))"
    if "enableEmail (config this)"
    using that
    by (simp add: sendReminder_unfold Let_def consoleLog_def split: prod.split EmailOutcome.split)
  obtain acc' w' where pr: "processReminder send this invoice reminder acc w = (Returned acc', w')"
    using processReminder_Returned by blast
  have tally: "enableEmail (config this) \<and>
      (\<exists>err w3. send (reminderPayload reminder invoice (time w (Suc (reads w))))
              ((consoleLog (CollectionSending (rem_type reminder) (invoiceId invoice)) w)
                 \<lparr>reads := Suc (Suc (reads w))\<rparr>) = (Rejected err, w3))"
    if neq: "failed acc' \<noteq> failed acc"
  proof -
    from neq pr obtain err r' w2 where
      "sendReminder send this reminder invoice (w\<lparr>reads := Suc (reads w)\<rparr>) = (Threw err, r', w2)"
      by (auto simp: processReminder_unfold split: if_splits prod.splits Completion.splits)
    from sendReminder_Threw [OF this] show ?thesis
      by (auto simp: consoleLog_def)
  qed
  have step: "\<exists>acc' w'. processReminder send this invoice reminder acc w = (Returned acc', w')
         \<and> (failed acc' \<noteq> failed acc \<longrightarrow>
              enableEmail (config this) \<and>
              (\<exists>err w3. send (reminderPayload reminder invoice (time w (Suc (reads w))))
                  ((consoleLog (CollectionSending (rem_type reminder) (invoiceId invoice)) w)
                     \<lparr>reads := Suc (Suc (reads w))\<rparr>) = (Rejected err, w3)))"
    using pr tally by blast
  show ?thesis
    using off on step processPendingReminders_sendEmail_failed [of this invoices w0] by blast
qed

theorem sendReminder_returns_true_witness:
  "sendReminder sendEmail defaultService (afterReminder (invoiceDue 0) utcZone 0 30) (invoiceDue 0)
       (worldAt (45 * MS_PER_DAY)) =
     (Returned True,
      (afterReminder (invoiceDue 0) utcZone 0 30)
        \<lparr>status := Sent, sentAt := Some (45 * MS_PER_DAY + 1000)\<rparr>,
      \<lparr>time = (\<lambda>n. 45 * MS_PER_DAY + 500 * int n), reads = 3, zone = utcZone,
       console = [CollectionSending overdue_30 ''INV-001'', EmailUnknownTemplate ''final_warning''],
       isEnabled = True\<rparr>)
   \<and> fst (sendReminder sendEmail (defaultService\<lparr>config := DEFAULT_CONFIG\<lparr>enableEmail := False\<rparr>\<rparr>)
          (afterReminder (invoiceDue 0) utcZone 0 7) (invoiceDue 0) (worldAt (10 * MS_PER_DAY)))
       = Returned True"
  using sendReminder_returns_true [where send = sendEmail and this = defaultService
        and reminder = "afterReminder (invoiceDue 0) utcZone 0 30" and invoice = "invoiceDue 0"
        and w = "worldAt (45 * MS_PER_DAY)"]
    sendReminder_returns_true [where send = sendEmail
        and this = "defaultService\<lparr>config := DEFAULT_CONFIG\<lparr>enableEmail := False\<rparr>\<rparr>"
        and reminder = "afterReminder (invoiceDue 0) utcZone 0 7" and invoice = "invoiceDue 0"
        and w = "worldAt (10 * MS_PER_DAY)"]
  by (simp add: reminderPayload_def sendEmail_def EMAIL_TEMPLATES_def newDate_def consoleLog_def
      worldAt_def invoiceDue_def defaultService_def DEFAULT_CONFIG_def daysUntilDue_def
      MS_PER_DAY_def afterType_def Let_def afterReminder_def)

end
